theory Spec2Isabelle
  imports Complex_Main "HOL-Library.Word"
begin

section \<open>Python values\<close>

text \<open>
  The driver in \<^verbatim>\<open>patroni/dcs/etcd3.py\<close> passes around untyped Python objects: keys
  and values that are \<^verbatim>\<open>str\<close> or \<^verbatim>\<open>bytes\<close>, lease ids and revisions as they
  come out of the gateway's JSON, request bodies that are dictionaries. They are modelled
  by one datatype. A dictionary is an association list with string keys, in insertion
  order. JSON numbers are integers here (the gateway's codes, revisions and TTLs are),
  floats are not modelled.
\<close>

type_synonym byte = "8 word"

datatype pyval =
    PNone
  | PBool bool
  | PInt int
  | PStr string
  | PBytes "byte list"
  | PList "pyval list"
  | PDict "(string \<times> pyval) list"

text \<open>Python's truth value of an object, as \<^verbatim>\<open>if x:\<close> and \<^verbatim>\<open>x or y\<close> test it.\<close>

fun truthy :: "pyval \<Rightarrow> bool" where
  "truthy PNone = False"
| "truthy (PBool b) = b"
| "truthy (PInt i) = (i \<noteq> 0)"
| "truthy (PStr s) = (s \<noteq> [])"
| "truthy (PBytes b) = (b \<noteq> [])"
| "truthy (PList xs) = (xs \<noteq> [])"
| "truthy (PDict kvs) = (kvs \<noteq> [])"

subsection \<open>Dictionaries\<close>

text \<open>
  A Python dictionary keeps its keys in insertion order; storing under a key that is
  present replaces the value in place. \<open>dict_comp\<close> is a dictionary comprehension over
  a list of items: a later item with the same key wins.
\<close>

fun dict_set :: "('k \<times> 'v) list \<Rightarrow> 'k \<Rightarrow> 'v \<Rightarrow> ('k \<times> 'v) list" where
  "dict_set [] k v = [(k, v)]"
| "dict_set ((k', v') # kvs) k v =
     (if k' = k then (k', v) # kvs else (k', v') # dict_set kvs k v)"

definition dict_comp :: "('k \<times> 'v) list \<Rightarrow> ('k \<times> 'v) list" where
  "dict_comp items = foldl (\<lambda>d (k, v). dict_set d k v) [] items"

section \<open>The error taxonomy\<close>

subsection \<open>Status codes\<close>

text \<open>
  \<^verbatim>\<open>
  GRPCCode = type('Enum', (), {'OK': 0, 'Canceled': 1, 'Unknown': 2, ...})
  GRPCcodeToText = {v: k for k, v in GRPCCode.__dict__.items()
                    if not k.startswith('__') and isinstance(v, int)}
  \<close>
  \<open>grpc n\<close> is the attribute access \<^verbatim>\<open>GRPCCode.n\<close>.
\<close>

definition GRPCCode :: "(string \<times> int) list" where
  "GRPCCode =
     [(''OK'', 0), (''Canceled'', 1), (''Unknown'', 2), (''InvalidArgument'', 3),
      (''DeadlineExceeded'', 4), (''NotFound'', 5), (''AlreadyExists'', 6),
      (''PermissionDenied'', 7), (''ResourceExhausted'', 8), (''FailedPrecondition'', 9),
      (''Aborted'', 10), (''OutOfRange'', 11), (''Unimplemented'', 12), (''Internal'', 13),
      (''Unavailable'', 14), (''DataLoss'', 15), (''Unauthenticated'', 16)]"

definition grpc :: "string \<Rightarrow> int option" where
  "grpc n = map_of GRPCCode n"

definition GRPCcodeToText :: "(int \<times> string) list" where
  "GRPCcodeToText = dict_comp (map (\<lambda>(k, v). (v, k)) GRPCCode)"

subsection \<open>The classes\<close>

text \<open>
  The classes of the hierarchy under \<^verbatim>\<open>Etcd3ClientError\<close>, one constructor per class
  statement of the source. \<open>class_order\<close> lists them in the order of their definition,
  \<open>base\<close> is the base class named in the statement (\<open>None\<close> for the root, whose base
  \<^verbatim>\<open>Etcd3Exception\<close> is outside the hierarchy), \<open>own_code\<close> and \<open>own_error\<close> are
  the attributes the class body assigns.
  \<^verbatim>\<open>
  class Unknown(Etcd3ClientError):
      code = GRPCCode.Unknown
  class DeadlineExceeded(Etcd3ClientError):
      code = GRPCCode.DeadlineExceeded
      error = "context deadline exceeded"
  class EmptyKey(InvalidArgument):
      error = "etcdserver: key is not provided"
  \<close>
\<close>

datatype (plugins only: code) kind =
    Etcd3ClientError | Unknown | InvalidArgument | DeadlineExceeded | NotFound
    | FailedPrecondition | OutOfRange | Unavailable | EmptyKey | KeyNotFound | ValueProvided
    | LeaseProvided | TooManyOps | DuplicateKey | Compacted | FutureRev | NoSpace
    | LeaseNotFound | LeaseExist | LeaseTTLTooLarge | MemberExist | PeerURLExist
    | MemberNotEnoughStarted | MemberBadURLs | MemberNotFound | MemberNotLearner
    | MemberLearnerNotReady | TooManyLearners | RequestTooLarge | TooManyRequests
    | RootUserNotExist | RootRoleNotExist | UserAlreadyExist | UserEmpty | UserNotFound
    | RoleAlreadyExist | RoleNotFound | RoleEmpty | AuthFailed | PermissionDenied
    | RoleNotGranted | PermissionNotGranted | AuthNotEnabled | InvalidAuthToken
    | InvalidAuthMgmt | NoLeader | NotLeader | LeaderChanged | NotCapable | Stopped
    | Timeout | TimeoutDueToLeaderFail | TimeoutDueToConnectionLost | Unhealthy | Corrupt
    | BadLeaderTransferee

definition class_order :: "kind list" where
  "class_order =
     [
      Etcd3ClientError, Unknown, InvalidArgument, DeadlineExceeded, NotFound,
      FailedPrecondition, OutOfRange, Unavailable, EmptyKey, KeyNotFound, ValueProvided,
      LeaseProvided, TooManyOps, DuplicateKey, Compacted, FutureRev, NoSpace, LeaseNotFound,
      LeaseExist, LeaseTTLTooLarge, MemberExist, PeerURLExist, MemberNotEnoughStarted,
      MemberBadURLs, MemberNotFound, MemberNotLearner, MemberLearnerNotReady,
      TooManyLearners, RequestTooLarge, TooManyRequests, RootUserNotExist, RootRoleNotExist,
      UserAlreadyExist, UserEmpty, UserNotFound, RoleAlreadyExist, RoleNotFound, RoleEmpty,
      AuthFailed, PermissionDenied, RoleNotGranted, PermissionNotGranted, AuthNotEnabled,
      InvalidAuthToken, InvalidAuthMgmt, NoLeader, NotLeader, LeaderChanged, NotCapable,
      Stopped, Timeout, TimeoutDueToLeaderFail, TimeoutDueToConnectionLost, Unhealthy,
      Corrupt, BadLeaderTransferee
     ]"

primrec base :: "kind \<Rightarrow> kind option" where
  "base Etcd3ClientError = None"
| "base Unknown = Some Etcd3ClientError"
| "base InvalidArgument = Some Etcd3ClientError"
| "base DeadlineExceeded = Some Etcd3ClientError"
| "base NotFound = Some Etcd3ClientError"
| "base FailedPrecondition = Some Etcd3ClientError"
| "base OutOfRange = Some Etcd3ClientError"
| "base Unavailable = Some Etcd3ClientError"
| "base EmptyKey = Some InvalidArgument"
| "base KeyNotFound = Some InvalidArgument"
| "base ValueProvided = Some InvalidArgument"
| "base LeaseProvided = Some InvalidArgument"
| "base TooManyOps = Some InvalidArgument"
| "base DuplicateKey = Some InvalidArgument"
| "base Compacted = Some OutOfRange"
| "base FutureRev = Some OutOfRange"
| "base NoSpace = Some Etcd3ClientError"
| "base LeaseNotFound = Some NotFound"
| "base LeaseExist = Some FailedPrecondition"
| "base LeaseTTLTooLarge = Some OutOfRange"
| "base MemberExist = Some FailedPrecondition"
| "base PeerURLExist = Some FailedPrecondition"
| "base MemberNotEnoughStarted = Some FailedPrecondition"
| "base MemberBadURLs = Some InvalidArgument"
| "base MemberNotFound = Some NotFound"
| "base MemberNotLearner = Some FailedPrecondition"
| "base MemberLearnerNotReady = Some FailedPrecondition"
| "base TooManyLearners = Some FailedPrecondition"
| "base RequestTooLarge = Some InvalidArgument"
| "base TooManyRequests = Some Etcd3ClientError"
| "base RootUserNotExist = Some FailedPrecondition"
| "base RootRoleNotExist = Some FailedPrecondition"
| "base UserAlreadyExist = Some FailedPrecondition"
| "base UserEmpty = Some InvalidArgument"
| "base UserNotFound = Some FailedPrecondition"
| "base RoleAlreadyExist = Some FailedPrecondition"
| "base RoleNotFound = Some FailedPrecondition"
| "base RoleEmpty = Some InvalidArgument"
| "base AuthFailed = Some InvalidArgument"
| "base PermissionDenied = Some Etcd3ClientError"
| "base RoleNotGranted = Some FailedPrecondition"
| "base PermissionNotGranted = Some FailedPrecondition"
| "base AuthNotEnabled = Some FailedPrecondition"
| "base InvalidAuthToken = Some Etcd3ClientError"
| "base InvalidAuthMgmt = Some InvalidArgument"
| "base NoLeader = Some Unavailable"
| "base NotLeader = Some FailedPrecondition"
| "base LeaderChanged = Some Unavailable"
| "base NotCapable = Some Unavailable"
| "base Stopped = Some Unavailable"
| "base Timeout = Some Unavailable"
| "base TimeoutDueToLeaderFail = Some Unavailable"
| "base TimeoutDueToConnectionLost = Some Unavailable"
| "base Unhealthy = Some Unavailable"
| "base Corrupt = Some Etcd3ClientError"
| "base BadLeaderTransferee = Some FailedPrecondition"

primrec own_code :: "kind \<Rightarrow> int option" where
  "own_code Etcd3ClientError = None"
| "own_code Unknown = grpc ''Unknown''"
| "own_code InvalidArgument = grpc ''InvalidArgument''"
| "own_code DeadlineExceeded = grpc ''DeadlineExceeded''"
| "own_code NotFound = grpc ''NotFound''"
| "own_code FailedPrecondition = grpc ''FailedPrecondition''"
| "own_code OutOfRange = grpc ''OutOfRange''"
| "own_code Unavailable = grpc ''Unavailable''"
| "own_code EmptyKey = None"
| "own_code KeyNotFound = None"
| "own_code ValueProvided = None"
| "own_code LeaseProvided = None"
| "own_code TooManyOps = None"
| "own_code DuplicateKey = None"
| "own_code Compacted = None"
| "own_code FutureRev = None"
| "own_code NoSpace = grpc ''ResourceExhausted''"
| "own_code LeaseNotFound = None"
| "own_code LeaseExist = None"
| "own_code LeaseTTLTooLarge = None"
| "own_code MemberExist = None"
| "own_code PeerURLExist = None"
| "own_code MemberNotEnoughStarted = None"
| "own_code MemberBadURLs = None"
| "own_code MemberNotFound = None"
| "own_code MemberNotLearner = None"
| "own_code MemberLearnerNotReady = None"
| "own_code TooManyLearners = None"
| "own_code RequestTooLarge = None"
| "own_code TooManyRequests = grpc ''ResourceExhausted''"
| "own_code RootUserNotExist = None"
| "own_code RootRoleNotExist = None"
| "own_code UserAlreadyExist = None"
| "own_code UserEmpty = None"
| "own_code UserNotFound = None"
| "own_code RoleAlreadyExist = None"
| "own_code RoleNotFound = None"
| "own_code RoleEmpty = None"
| "own_code AuthFailed = None"
| "own_code PermissionDenied = grpc ''PermissionDenied''"
| "own_code RoleNotGranted = None"
| "own_code PermissionNotGranted = None"
| "own_code AuthNotEnabled = None"
| "own_code InvalidAuthToken = grpc ''Unauthenticated''"
| "own_code InvalidAuthMgmt = None"
| "own_code NoLeader = None"
| "own_code NotLeader = None"
| "own_code LeaderChanged = None"
| "own_code NotCapable = None"
| "own_code Stopped = None"
| "own_code Timeout = None"
| "own_code TimeoutDueToLeaderFail = None"
| "own_code TimeoutDueToConnectionLost = None"
| "own_code Unhealthy = None"
| "own_code Corrupt = grpc ''DataLoss''"
| "own_code BadLeaderTransferee = None"

primrec own_error :: "kind \<Rightarrow> string option" where
  "own_error Etcd3ClientError = None"
| "own_error Unknown = None"
| "own_error InvalidArgument = None"
| "own_error DeadlineExceeded = Some ''context deadline exceeded''"
| "own_error NotFound = None"
| "own_error FailedPrecondition = None"
| "own_error OutOfRange = None"
| "own_error Unavailable = None"
| "own_error EmptyKey = Some ''etcdserver: key is not provided''"
| "own_error KeyNotFound = Some ''etcdserver: key not found''"
| "own_error ValueProvided = Some ''etcdserver: value is provided''"
| "own_error LeaseProvided = Some ''etcdserver: lease is provided''"
| "own_error TooManyOps = Some ''etcdserver: too many operations in txn request''"
| "own_error DuplicateKey = Some ''etcdserver: duplicate key given in txn request''"
| "own_error Compacted = Some ''etcdserver: mvcc: required revision has been compacted''"
| "own_error FutureRev = Some ''etcdserver: mvcc: required revision is a future revision''"
| "own_error NoSpace = Some ''etcdserver: mvcc: database space exceeded''"
| "own_error LeaseNotFound = Some ''etcdserver: requested lease not found''"
| "own_error LeaseExist = Some ''etcdserver: lease already exists''"
| "own_error LeaseTTLTooLarge = Some ''etcdserver: too large lease TTL''"
| "own_error MemberExist = Some ''etcdserver: member ID already exist''"
| "own_error PeerURLExist = Some ''etcdserver: Peer URLs already exists''"
| "own_error MemberNotEnoughStarted =
     Some ''etcdserver: re-configuration failed due to not enough started members''"
| "own_error MemberBadURLs = Some ''etcdserver: given member URLs are invalid''"
| "own_error MemberNotFound = Some ''etcdserver: member not found''"
| "own_error MemberNotLearner = Some ''etcdserver: can only promote a learner member''"
| "own_error MemberLearnerNotReady =
     Some ''etcdserver: can only promote a learner member which is in sync with leader''"
| "own_error TooManyLearners = Some ''etcdserver: too many learner members in cluster''"
| "own_error RequestTooLarge = Some ''etcdserver: request is too large''"
| "own_error TooManyRequests = Some ''etcdserver: too many requests''"
| "own_error RootUserNotExist = Some ''etcdserver: root user does not exist''"
| "own_error RootRoleNotExist = Some ''etcdserver: root user does not have root role''"
| "own_error UserAlreadyExist = Some ''etcdserver: user name already exists''"
| "own_error UserEmpty = Some ''etcdserver: user name is empty''"
| "own_error UserNotFound = Some ''etcdserver: user name not found''"
| "own_error RoleAlreadyExist = Some ''etcdserver: role name already exists''"
| "own_error RoleNotFound = Some ''etcdserver: role name not found''"
| "own_error RoleEmpty = Some ''etcdserver: role name is empty''"
| "own_error AuthFailed =
     Some ''etcdserver: authentication failed, invalid user ID or password''"
| "own_error PermissionDenied = Some ''etcdserver: permission denied''"
| "own_error RoleNotGranted = Some ''etcdserver: role is not granted to the user''"
| "own_error PermissionNotGranted = Some ''etcdserver: permission is not granted to the role''"
| "own_error AuthNotEnabled = Some ''etcdserver: authentication is not enabled''"
| "own_error InvalidAuthToken = Some ''etcdserver: invalid auth token''"
| "own_error InvalidAuthMgmt = Some ''etcdserver: invalid auth management''"
| "own_error NoLeader = Some ''etcdserver: no leader''"
| "own_error NotLeader = Some ''etcdserver: not leader''"
| "own_error LeaderChanged = Some ''etcdserver: leader changed''"
| "own_error NotCapable = Some ''etcdserver: not capable''"
| "own_error Stopped = Some ''etcdserver: server stopped''"
| "own_error Timeout = Some ''etcdserver: request timed out''"
| "own_error TimeoutDueToLeaderFail =
     Some ''etcdserver: request timed out, possibly due to previous leader failure''"
| "own_error TimeoutDueToConnectionLost =
     Some ''etcdserver: request timed out, possibly due to connection lost''"
| "own_error Unhealthy = Some ''etcdserver: unhealthy cluster''"
| "own_error Corrupt = Some ''etcdserver: corrupt cluster''"
| "own_error BadLeaderTransferee = Some ''etcdserver: bad leader transferee''"

text \<open>
  Attribute lookup on a class: the class body's own assignment, or else what the base
  class has. \<open>None\<close> is \<^verbatim>\<open>hasattr(cls, ...) == False\<close>. \<open>issubclass\<close> follows
  the chain of bases in the same way. The recursion ends because a base is nearer to the
  root than its subclass: \<open>depth\<close> measures that and has no other use.
\<close>

definition depth :: "kind \<Rightarrow> nat" where
  "depth k =
     (case base k of None \<Rightarrow> 0 | Some b \<Rightarrow> (case base b of None \<Rightarrow> 1 | Some _ \<Rightarrow> 2))"

lemma base_depth: "base k = Some b \<Longrightarrow> depth b < depth k"
  by (cases k) (simp_all add: depth_def)

function class_code :: "kind \<Rightarrow> int option" where
  "class_code k =
     (case own_code k of
        Some v \<Rightarrow> Some v
      | None \<Rightarrow> (case base k of None \<Rightarrow> None | Some b \<Rightarrow> class_code b))"
  by pat_completeness auto
termination
  by (relation "measure depth") (auto simp: base_depth)

function class_error :: "kind \<Rightarrow> string option" where
  "class_error k =
     (case own_error k of
        Some v \<Rightarrow> Some v
      | None \<Rightarrow> (case base k of None \<Rightarrow> None | Some b \<Rightarrow> class_error b))"
  by pat_completeness auto
termination
  by (relation "measure depth") (auto simp: base_depth)

function issubclass :: "kind \<Rightarrow> kind \<Rightarrow> bool" where
  "issubclass c d = (c = d \<or> (case base c of None \<Rightarrow> False | Some b \<Rightarrow> issubclass b d))"
  by pat_completeness auto
termination
  by (relation "measure (\<lambda>(c, d). depth c)") (auto simp: base_depth)

text \<open>
  \<^verbatim>\<open>
  @classmethod
  def get_subclasses(cls):
      for subclass in cls.__subclasses__():
          for subsubclass in subclass.get_subclasses():
              yield subsubclass
          yield subclass
  \<close>
  \<^verbatim>\<open>cls.__subclasses__()\<close> are the direct subclasses in the order of their definition.
\<close>

definition subclasses :: "kind \<Rightarrow> kind list" where
  "subclasses c = filter (\<lambda>k. base k = Some c) class_order"

lemma subclasses_depth: "s \<in> set (subclasses c) \<Longrightarrow> depth c < depth s"
  by (auto simp: subclasses_def base_depth)

lemma depth_le_2: "depth k \<le> 2"
  by (simp add: depth_def split: option.split)

function get_subclasses :: "kind \<Rightarrow> kind list" where
  "get_subclasses c = concat (map (\<lambda>s. get_subclasses s @ [s]) (subclasses c))"
  by pat_completeness auto
termination
proof (relation "measure (\<lambda>c. 2 - depth c)")
  show "wf (measure (\<lambda>c. 2 - depth c))" by simp
next
  fix c s
  assume "s \<in> set (subclasses c)"
  then have "depth c < depth s" by (rule subclasses_depth)
  moreover have "depth s \<le> 2" by (rule depth_le_2)
  ultimately show "(s, c) \<in> measure (\<lambda>c. 2 - depth c)" by simp
qed

declare class_code.simps [simp del] class_error.simps [simp del]
declare issubclass.simps [simp del] get_subclasses.simps [simp del]

text \<open>
  \<^verbatim>\<open>
  errStringToClientError = {s.error: s for s in Etcd3ClientError.get_subclasses()
                            if hasattr(s, 'error')}
  errCodeToClientError = {s.code: s for s in Etcd3ClientError.get_subclasses()
                          if not hasattr(s, 'error')}
  \<close>
  Every class without an \<^verbatim>\<open>error\<close> has a \<^verbatim>\<open>code\<close>, so \<^verbatim>\<open>s.code\<close> does not
  fail when the module is loaded; the model has no item for a class without one.
\<close>

definition errStringToClientError :: "(string \<times> kind) list" where
  "errStringToClientError =
     dict_comp (concat (map (\<lambda>s. case class_error s of Some e \<Rightarrow> [(e, s)] | None \<Rightarrow> [])
                  (get_subclasses Etcd3ClientError)))"

definition errCodeToClientError :: "(int \<times> kind) list" where
  "errCodeToClientError =
     dict_comp (concat (map (\<lambda>s. case class_error s of
                                   Some e \<Rightarrow> []
                                 | None \<Rightarrow> (case class_code s of Some c \<Rightarrow> [(c, s)] | None \<Rightarrow> []))
                  (get_subclasses Etcd3ClientError)))"

section \<open>Exceptions and library functions\<close>

text \<open>
  The exceptions the modelled code can raise. A function that can raise returns
  \<open>exn + 'a\<close>, with \<open>Inl\<close> for the exception. \<open>ClientError\<close> carries an instance of
  a class of the \<^verbatim>\<open>Etcd3ClientError\<close> hierarchy: its class and the attributes
  \<^verbatim>\<open>__init__\<close> sets. \<open>ExternalError\<close> stands for an exception of a collaborator that
  is none of the others (a connection failure of the failover client, say).
\<close>

record client_error =
  err_class :: kind
  err_error :: pyval
  err_codeText :: "string option"
  err_status :: pyval

datatype exn =
    ClientError client_error
  | AttributeError
  | TypeError
  | ValueError
  | IndexError
  | KeyError
  | UnicodeDecodeError
  | EtcdException string
  | RetryFailedError
  | EtcdError string
  | ExternalError string

text \<open>
  Library functions the source calls and this file does not define: the UTF-8 codec,
  base64 and the JSON parser and printer. They are parameters of the model; \<open>None\<close> is
  the library's exception.
\<close>

record pylib =
  utf8_encode :: "string \<Rightarrow> byte list"
  utf8_decode :: "byte list \<Rightarrow> string option"
  b64encode :: "byte list \<Rightarrow> byte list"
  b64decode :: "pyval \<Rightarrow> byte list option"
  json_loads :: "string \<Rightarrow> pyval option"
  json_dumps :: "pyval \<Rightarrow> string option"

subsection \<open>Operations on Python values\<close>

text \<open>
  \<^verbatim>\<open>d.get(k, default)\<close> and \<^verbatim>\<open>d[k]\<close> on an arbitrary object: only a dictionary
  has \<^verbatim>\<open>get\<close> (AttributeError otherwise); subscripting a dictionary with a missing key
  is a KeyError, subscripting anything else with a string is a TypeError.
\<close>

definition py_get :: "pyval \<Rightarrow> string \<Rightarrow> pyval \<Rightarrow> exn + pyval" where
  "py_get d k dflt =
     (case d of
        PDict kvs \<Rightarrow> Inr (case map_of kvs k of None \<Rightarrow> dflt | Some v \<Rightarrow> v)
      | _ \<Rightarrow> Inl AttributeError)"

definition py_getitem :: "pyval \<Rightarrow> string \<Rightarrow> exn + pyval" where
  "py_getitem d k =
     (case d of
        PDict kvs \<Rightarrow> (case map_of kvs k of None \<Rightarrow> Inl KeyError | Some v \<Rightarrow> Inr v)
      | _ \<Rightarrow> Inl TypeError)"

text \<open>
  Looking a Python object up in a dictionary whose keys are strings, or integers. A list
  or a dictionary is unhashable (TypeError). \<^verbatim>\<open>True\<close> and \<^verbatim>\<open>False\<close> hash and compare
  as 1 and 0. An object of another type than the keys is not found.
\<close>

definition str_dict_get :: "(string \<times> 'a) list \<Rightarrow> pyval \<Rightarrow> exn + 'a option" where
  "str_dict_get d k =
     (case k of
        PStr s \<Rightarrow> Inr (map_of d s)
      | PList _ \<Rightarrow> Inl TypeError
      | PDict _ \<Rightarrow> Inl TypeError
      | _ \<Rightarrow> Inr None)"

definition int_dict_get :: "(int \<times> 'a) list \<Rightarrow> pyval \<Rightarrow> exn + 'a option" where
  "int_dict_get d k =
     (case k of
        PInt n \<Rightarrow> Inr (map_of d n)
      | PBool b \<Rightarrow> Inr (map_of d (if b then 1 else 0))
      | PList _ \<Rightarrow> Inl TypeError
      | PDict _ \<Rightarrow> Inl TypeError
      | _ \<Rightarrow> Inr None)"

text \<open>
  \<^verbatim>\<open>x.strip()\<close>: a string without its leading and trailing whitespace; of the values
  modelled only \<^verbatim>\<open>str\<close> and \<^verbatim>\<open>bytes\<close> have the method. Whitespace is ASCII
  whitespace (for \<^verbatim>\<open>str\<close> with the separators 0x1c to 0x1f); other Unicode spaces are
  not modelled.
\<close>

definition is_space :: "char \<Rightarrow> bool" where
  "is_space c = (of_char c \<in> {9, 10, 11, 12, 13, 28, 29, 30, 31, 32 :: nat})"

definition is_space_byte :: "byte \<Rightarrow> bool" where
  "is_space_byte b = (b \<in> {9, 10, 11, 12, 13, 32})"

definition strip :: "('a \<Rightarrow> bool) \<Rightarrow> 'a list \<Rightarrow> 'a list" where
  "strip ws s = rev (dropWhile ws (rev (dropWhile ws s)))"

definition py_strip :: "pyval \<Rightarrow> exn + pyval" where
  "py_strip v =
     (case v of
        PStr s \<Rightarrow> Inr (PStr (strip is_space s))
      | PBytes b \<Rightarrow> Inr (PBytes (strip is_space_byte b))
      | _ \<Rightarrow> Inl AttributeError)"

definition opt_int :: "int option \<Rightarrow> pyval" where
  "opt_int v = (case v of None \<Rightarrow> PNone | Some i \<Rightarrow> PInt i)"

subsection \<open>Constructing and raising an error\<close>

text \<open>
  \<^verbatim>\<open>
  class Etcd3ClientError(Etcd3Exception):
      def __init__(self, code=None, error=None, status=None):
          if not hasattr(self, 'error'):
              self.error = error.strip()
          self.codeText = GRPCcodeToText.get(code)
          self.status = status
  \<close>
  The arguments of \<open>Etcd3ClientError_init\<close> are the class instantiated and then
  \<^verbatim>\<open>code\<close>, \<^verbatim>\<open>error\<close>, \<^verbatim>\<open>status\<close> in the order of the signature. An instance of
  a class with an \<^verbatim>\<open>error\<close> attribute reads \<^verbatim>\<open>self.error\<close> from the class.
\<close>

definition Etcd3ClientError_init :: "kind \<Rightarrow> pyval \<Rightarrow> pyval \<Rightarrow> pyval \<Rightarrow> exn + client_error" where
  "Etcd3ClientError_init cls code error status =
     (case (case class_error cls of Some e \<Rightarrow> Inr (PStr e) | None \<Rightarrow> py_strip error) of
        Inl x \<Rightarrow> Inl x
      | Inr self_error \<Rightarrow>
          (case int_dict_get GRPCcodeToText code of
             Inl x \<Rightarrow> Inl x
           | Inr codeText \<Rightarrow>
               Inr \<lparr>err_class = cls, err_error = self_error, err_codeText = codeText,
                    err_status = status\<rparr>))"

text \<open>
  \<^verbatim>\<open>
  def _raise_for_status(response):
      if response.status < 400:
          return
      data = response.data.decode('utf-8')
      try:
          data = json.loads(data)
          error = data.get('error')
          if isinstance(error, dict):  # streaming response
              code = error['grpc_code']
              error = error['message']
          else:
              code = data.get('code')
      except Exception:
          error = data
          code = GRPCCode.Unknown
      err = errStringToClientError.get(error) or errCodeToClientError.get(code) or Unknown
      raise err(error, code, response.status)
  \<close>
  \<open>extract_error\<close> is the \<^verbatim>\<open>try\<close> statement: it gives \<^verbatim>\<open>error\<close> and \<^verbatim>\<open>code\<close>.
  When an exception is caught, \<^verbatim>\<open>data\<close> is the decoded text if \<^verbatim>\<open>json.loads\<close> failed
  and the parsed value otherwise. \<open>raise_err\<close> is the last line: the exception raised is
  the instance, or whatever its construction raises. The call passes \<^verbatim>\<open>error\<close> first
  and \<^verbatim>\<open>code\<close> second.
\<close>

record response =
  resp_status :: int
  resp_data :: "byte list"

definition extract_error :: "pylib \<Rightarrow> string \<Rightarrow> pyval \<times> pyval" where
  "extract_error L text =
     (case json_loads L text of
        None \<Rightarrow> (PStr text, opt_int (grpc ''Unknown''))
      | Some data \<Rightarrow>
          (case py_get data ''error'' PNone of
             Inl _ \<Rightarrow> (data, opt_int (grpc ''Unknown''))
           | Inr (PDict e) \<Rightarrow>
               (case py_getitem (PDict e) ''grpc_code'' of
                  Inl _ \<Rightarrow> (data, opt_int (grpc ''Unknown''))
                | Inr code \<Rightarrow>
                    (case py_getitem (PDict e) ''message'' of
                       Inl _ \<Rightarrow> (data, opt_int (grpc ''Unknown''))
                     | Inr message \<Rightarrow> (message, code)))
           | Inr error \<Rightarrow>
               (case py_get data ''code'' PNone of
                  Inl _ \<Rightarrow> (data, opt_int (grpc ''Unknown''))
                | Inr code \<Rightarrow> (error, code))))"

definition raise_err :: "kind \<Rightarrow> pyval \<Rightarrow> pyval \<Rightarrow> pyval \<Rightarrow> exn" where
  "raise_err err a1 a2 a3 =
     (case Etcd3ClientError_init err a1 a2 a3 of Inl x \<Rightarrow> x | Inr e \<Rightarrow> ClientError e)"

definition select_err :: "pyval \<Rightarrow> pyval \<Rightarrow> exn + kind" where
  "select_err error code =
     (case str_dict_get errStringToClientError error of
        Inl x \<Rightarrow> Inl x
      | Inr (Some err) \<Rightarrow> Inr err
      | Inr None \<Rightarrow>
          (case int_dict_get errCodeToClientError code of
             Inl x \<Rightarrow> Inl x
           | Inr (Some err) \<Rightarrow> Inr err
           | Inr None \<Rightarrow> Inr Unknown))"

definition raise_for_status :: "pylib \<Rightarrow> response \<Rightarrow> exn + unit" where
  "raise_for_status L response =
     (if resp_status response < 400 then Inr ()
      else
        (case utf8_decode L (resp_data response) of
           None \<Rightarrow> Inl UnicodeDecodeError
         | Some text \<Rightarrow>
             (let (error, code) = extract_error L text in
              case select_err error code of
                Inl x \<Rightarrow> Inl x
              | Inr err \<Rightarrow> Inl (raise_err err error code (PInt (resp_status response))))))"

section \<open>Byte strings and the end of a prefix range\<close>

text \<open>
  \<^verbatim>\<open>
  def to_bytes(v):
      return v if isinstance(v, bytes) else v.encode('utf-8')
  \<close>
  Only \<^verbatim>\<open>str\<close> has an \<^verbatim>\<open>encode\<close> method among the values modelled.
\<close>

definition to_bytes :: "pylib \<Rightarrow> pyval \<Rightarrow> exn + byte list" where
  "to_bytes L v =
     (case v of
        PBytes b \<Rightarrow> Inr b
      | PStr s \<Rightarrow> Inr (utf8_encode L s)
      | _ \<Rightarrow> Inl AttributeError)"

text \<open>
  \<^verbatim>\<open>
  def increment_last_byte(self, v):
      v = bytearray(self.to_bytes(v))
      v[-1] += 1
      return bytes(v)
  \<close>
  \<^verbatim>\<open>v[-1]\<close> on an empty bytearray raises IndexError. \<^verbatim>\<open>v[-1] += 1\<close> reads the
  byte as a Python integer, adds one and stores the sum: a bytearray accepts only
  \<^verbatim>\<open>0 <= x < 256\<close> and raises ValueError for anything else.
\<close>

definition increment_last_byte :: "pylib \<Rightarrow> pyval \<Rightarrow> exn + pyval" where
  "increment_last_byte L v =
     (case to_bytes L v of
        Inl e \<Rightarrow> Inl e
      | Inr b \<Rightarrow>
          (let n = length b in
           if n = 0 then Inl IndexError
           else
             (let x = uint (b ! (n - 1)) + 1 in
              if 0 \<le> x \<and> x < 256 then Inr (PBytes (b[n - 1 := word_of_int x]))
              else Inl ValueError)))"

section \<open>State and collaborators\<close>

text \<open>
  \<^verbatim>\<open>Etcd3Client\<close> extends the failover HTTP client of \<^verbatim>\<open>patroni.dcs.etcd\<close>, which is
  not part of this file. Its state is the negotiated \<^verbatim>\<open>version_prefix\<close>, the base URI
  and the state of everything behind it (\<open>transport\<close>: connections, the servers, the
  clock), of any type \<open>'w\<close>.
\<close>

record 'w client =
  version_prefix :: string
  base_uri :: string
  transport :: 'w

text \<open>
  The value types of \<^verbatim>\<open>patroni.dcs\<close> the driver builds: \<^verbatim>\<open>Member(index, name,
  session, data)\<close>, \<^verbatim>\<open>Leader(index, session, member)\<close> and \<^verbatim>\<open>Cluster(initialize,
  config, leader, last_leader_operation, members, failover, sync, history)\<close>. The
  configuration, history, failover and synchronisation objects are opaque values.
\<close>

record member =
  mem_index :: pyval
  mem_name :: pyval
  mem_session :: pyval
  mem_data :: pyval

record leader =
  lead_index :: pyval
  lead_session :: pyval
  lead_member :: member

record cluster =
  cl_initialize :: pyval
  cl_config :: pyval
  cl_leader :: "leader option"
  cl_last_leader_operation :: int
  cl_members :: "member list"
  cl_failover :: pyval
  cl_sync :: pyval
  cl_history :: pyval

text \<open>
  The driver \<^verbatim>\<open>Etcd3\<close>: its client, \<^verbatim>\<open>self._lease\<close>, \<^verbatim>\<open>self._last_lease_refresh\<close>
  and \<^verbatim>\<open>self.__do_not_watch\<close>, and what it reads of its base class: the loop wait, the
  TTL, its own name, the path of the leader key, the cached cluster view
  (\<^verbatim>\<open>self.cluster\<close>) and the failure flag.
\<close>

record 'w etcd3 =
  self_client :: "'w client"
  self_lease :: pyval
  self_last_lease_refresh :: real
  self_do_not_watch :: bool
  self_loop_wait :: real
  self_ttl :: pyval
  self_name :: pyval
  self_leader_path :: pyval
  self_cluster :: "cluster option"
  self_has_failed :: bool

text \<open>
  What the two classes inherit or call from outside this file is a parameter of the
  model, collected in \<open>env\<close>:
  \<^item> \<open>lib\<close>: the library functions above;
  \<^item> \<open>build_request_parameters\<close>: \<^verbatim>\<open>self._build_request_parameters()\<close>, the keyword
    arguments of a request;
  \<^item> \<open>urlopen\<close>: \<^verbatim>\<open>self.http.urlopen(method, url, **kwargs)\<close>;
  \<^item> \<open>api_execute\<close>: \<^verbatim>\<open>self.api_execute(path, method, fields)\<close>, which sends the
    request to a reachable server and returns the decoded response or raises;
  \<^item> \<open>time_time\<close>: \<^verbatim>\<open>time.time()\<close>, as an exact number read from the outside state;
  \<^item> \<open>retry_budget\<close>: how many further attempts the retry deadline leaves room for;
  \<^item> \<open>leader_name\<close>: the property \<^verbatim>\<open>Leader.name\<close>;
  \<^item> \<open>catch_etcd_errors\<close>: what the decorator of that name makes of the outcome of the
    method it wraps;
  \<^item> \<open>handle_exception\<close>: \<^verbatim>\<open>self._handle_exception(e, name, raise_ex=...)\<close>;
  \<^item> \<open>client_path\<close>: \<^verbatim>\<open>self.client_path(path)\<close>;
  \<^item> \<open>key_names\<close>: the key names \<^verbatim>\<open>_INITIALIZE\<close>, \<^verbatim>\<open>_CONFIG\<close>, \<^verbatim>\<open>_HISTORY\<close>,
    \<^verbatim>\<open>_LEADER_OPTIME\<close>, \<^verbatim>\<open>_MEMBERS\<close>, \<^verbatim>\<open>_LEADER\<close>, \<^verbatim>\<open>_FAILOVER\<close>, \<^verbatim>\<open>_SYNC\<close>
    of the base class, in this order;
  \<^item> the \<^verbatim>\<open>from_node\<close> constructors of the value types.
\<close>

record key_names =
  k_INITIALIZE :: string
  k_CONFIG :: string
  k_HISTORY :: string
  k_LEADER_OPTIME :: string
  k_MEMBERS :: string
  k_LEADER :: string
  k_FAILOVER :: string
  k_SYNC :: string

record 'w env =
  lib :: pylib
  build_request_parameters :: "'w client \<Rightarrow> pyval"
  urlopen :: "string \<Rightarrow> string \<Rightarrow> pyval \<Rightarrow> 'w \<Rightarrow> (exn + response) \<times> 'w"
  api_execute :: "string \<Rightarrow> string \<Rightarrow> pyval \<Rightarrow> 'w client \<Rightarrow> (exn + pyval) \<times> 'w client"
  time_time :: "'w \<Rightarrow> real"
  retry_budget :: "'w \<Rightarrow> nat"
  leader_name :: "leader \<Rightarrow> pyval"
  catch_etcd_errors :: "exn + pyval \<Rightarrow> 'w etcd3 \<Rightarrow> (exn + pyval) \<times> 'w etcd3"
  handle_exception :: "exn \<Rightarrow> string \<Rightarrow> exn \<Rightarrow> 'w etcd3 \<Rightarrow> (exn + unit) \<times> 'w etcd3"
  client_path :: "string \<Rightarrow> string"
  key_names :: key_names
  member_from_node :: "pyval \<Rightarrow> pyval \<Rightarrow> pyval \<Rightarrow> pyval \<Rightarrow> exn + member"
  config_from_node :: "pyval \<Rightarrow> pyval \<Rightarrow> exn + pyval"
  history_from_node :: "pyval \<Rightarrow> pyval \<Rightarrow> exn + pyval"
  failover_from_node :: "pyval \<Rightarrow> pyval \<Rightarrow> exn + pyval"
  sync_from_node :: "pyval \<Rightarrow> pyval \<Rightarrow> exn + pyval"

section \<open>The low-level client\<close>

text \<open>The request methods \<^verbatim>\<open>_MGET\<close> and \<^verbatim>\<open>_MPOST\<close> of the inherited client.\<close>

definition MGET :: string where
  "MGET = ''GET''"

definition MPOST :: string where
  "MPOST = ''POST''"

text \<open>
  \<^verbatim>\<open>
  def _prepare_request(self, params=None):
      kwargs = self._build_request_parameters()
      kwargs['preload_content'] = False
      if params is None:
          kwargs['body'] = ''
      else:
          kwargs['body'] = json.dumps(params)
          kwargs['headers']['Content-Type'] = 'application/json'
      return self.http.urlopen, kwargs
  \<close>
  The model returns the keyword arguments; the executor is always \<open>urlopen\<close>.
\<close>

definition prepare_request :: "'w env \<Rightarrow> 'w client \<Rightarrow> pyval \<Rightarrow> exn + pyval" where
  "prepare_request E c params =
     (case build_request_parameters E c of
        PDict kw \<Rightarrow>
          (let kw = dict_set kw ''preload_content'' (PBool False) in
           if params = PNone then Inr (PDict (dict_set kw ''body'' (PStr [])))
           else
             (case json_dumps (lib E) params of
                None \<Rightarrow> Inl TypeError
              | Some body \<Rightarrow>
                  (let kw = dict_set kw ''body'' (PStr body) in
                   case py_getitem (PDict kw) ''headers'' of
                     Inl x \<Rightarrow> Inl x
                   | Inr (PDict h) \<Rightarrow>
                       Inr (PDict (dict_set kw ''headers''
                              (PDict (dict_set h ''Content-Type'' (PStr ''application/json'')))))
                   | Inr _ \<Rightarrow> Inl TypeError)))
      | _ \<Rightarrow> Inl TypeError)"

text \<open>
  \<^verbatim>\<open>
  @staticmethod
  def _handle_server_response(response):
      _raise_for_status(response)
      try:
          return json.loads(response.data.decode('utf-8'))
      except (TypeError, ValueError, UnicodeError) as e:
          raise etcd.EtcdException('Server response was not valid JSON: %r' % e)
  \<close>
  The text of the exception is kept without the formatted cause.
\<close>

definition handle_server_response :: "pylib \<Rightarrow> response \<Rightarrow> exn + pyval" where
  "handle_server_response L response =
     (case raise_for_status L response of
        Inl x \<Rightarrow> Inl x
      | Inr _ \<Rightarrow>
          (case utf8_decode L (resp_data response) of
             None \<Rightarrow> Inl (EtcdException ''Server response was not valid JSON'')
           | Some text \<Rightarrow>
               (case json_loads L text of
                  None \<Rightarrow> Inl (EtcdException ''Server response was not valid JSON'')
                | Some v \<Rightarrow> Inr v)))"

subsection \<open>Version negotiation\<close>

text \<open>
  \<^verbatim>\<open>s.split('.')\<close> never returns an empty list. \<^verbatim>\<open>int(x)\<close> of a string accepts
  surrounding whitespace, a sign and decimal digits, with single underscores between
  digits; anything else is a ValueError. (Digits outside ASCII are not modelled.)
\<close>

fun split_on :: "char \<Rightarrow> string \<Rightarrow> string list" where
  "split_on sep [] = [[]]"
| "split_on sep (c # cs) =
     (if c = sep then [] # split_on sep cs
      else (case split_on sep cs of [] \<Rightarrow> [[c]] | w # ws \<Rightarrow> (c # w) # ws))"

definition py_split :: "pyval \<Rightarrow> char \<Rightarrow> exn + string list" where
  "py_split v sep =
     (case v of
        PStr s \<Rightarrow> Inr (split_on sep s)
      | PBytes _ \<Rightarrow> Inl TypeError
      | _ \<Rightarrow> Inl AttributeError)"

definition is_digit :: "char \<Rightarrow> bool" where
  "is_digit c = (48 \<le> (of_char c :: nat) \<and> (of_char c :: nat) \<le> 57)"

definition digit_val :: "char \<Rightarrow> int" where
  "digit_val c = int (of_char c) - 48"

fun parse_digits :: "string \<Rightarrow> int \<Rightarrow> int option" where
  "parse_digits [] acc = Some acc"
| "parse_digits [c] acc = (if is_digit c then Some (10 * acc + digit_val c) else None)"
| "parse_digits (c # d # ds) acc =
     (if is_digit c then parse_digits (d # ds) (10 * acc + digit_val c)
      else if c = CHR ''_'' \<and> is_digit d then parse_digits ds (10 * acc + digit_val d)
      else None)"

definition parse_unsigned :: "string \<Rightarrow> int option" where
  "parse_unsigned s =
     (case s of
        [] \<Rightarrow> None
      | c # cs \<Rightarrow> if is_digit c then parse_digits cs (digit_val c) else None)"

definition py_int :: "string \<Rightarrow> exn + int" where
  "py_int s =
     (let t = strip is_space s;
          r = (case t of
                 [] \<Rightarrow> None
               | c # cs \<Rightarrow>
                   if c = CHR ''-'' then map_option uminus (parse_unsigned cs)
                   else if c = CHR ''+'' then parse_unsigned cs
                   else parse_unsigned t)
      in case r of None \<Rightarrow> Inl ValueError | Some i \<Rightarrow> Inr i)"

text \<open>\<^verbatim>\<open>tuple(int(x) for x in xs)\<close>: the first failure is the result.\<close>

fun ints_of :: "string list \<Rightarrow> exn + int list" where
  "ints_of [] = Inr []"
| "ints_of (x # xs) =
     (case py_int x of
        Inl e \<Rightarrow> Inl e
      | Inr i \<Rightarrow> (case ints_of xs of Inl e \<Rightarrow> Inl e | Inr is \<Rightarrow> Inr (i # is)))"

text \<open>
  Python compares tuples by their first differing element; a proper prefix is smaller.
\<close>

fun tuple_less :: "int list \<Rightarrow> int list \<Rightarrow> bool" where
  "tuple_less [] [] = False"
| "tuple_less [] (y # ys) = True"
| "tuple_less (x # xs) [] = False"
| "tuple_less (x # xs) (y # ys) = (if x = y then tuple_less xs ys else x < y)"

text \<open>
  \<^verbatim>\<open>
  def _ensure_version_prefix(self):
      if self.version_prefix != '/v3':
          request_executor, kwargs = self._prepare_request()
          response = request_executor(self._MGET, self._base_uri + '/version', **kwargs)
          cluster_version = self._handle_server_response(response)['etcdcluster']
          cluster_version = tuple(int(x) for x in cluster_version.split('.'))
          if cluster_version < (3, 3):
              self.version_prefix = '/v3alpha'
          elif cluster_version < (3, 4):
              self.version_prefix = '/v3beta'
          else:
              self.version_prefix = '/v3'
  \<close>
  \<open>cluster_version_of\<close> is the parsing of the response, \<open>select_prefix\<close> the choice.
\<close>

definition cluster_version_of :: "pylib \<Rightarrow> response \<Rightarrow> exn + int list" where
  "cluster_version_of L response =
     (case handle_server_response L response of
        Inl x \<Rightarrow> Inl x
      | Inr v \<Rightarrow>
          (case py_getitem v ''etcdcluster'' of
             Inl x \<Rightarrow> Inl x
           | Inr cv \<Rightarrow>
               (case py_split cv (CHR ''.'') of
                  Inl x \<Rightarrow> Inl x
                | Inr parts \<Rightarrow> ints_of parts)))"

definition select_prefix :: "int list \<Rightarrow> string" where
  "select_prefix cluster_version =
     (if tuple_less cluster_version [3, 3] then ''/v3alpha''
      else if tuple_less cluster_version [3, 4] then ''/v3beta''
      else ''/v3'')"

definition ensure_version_prefix :: "'w env \<Rightarrow> 'w client \<Rightarrow> (exn + unit) \<times> 'w client" where
  "ensure_version_prefix E c =
     (if version_prefix c \<noteq> ''/v3'' then
        (case prepare_request E c PNone of
           Inl x \<Rightarrow> (Inl x, c)
         | Inr kwargs \<Rightarrow>
             (let (r, w) = urlopen E MGET (base_uri c @ ''/version'') kwargs (transport c);
                  c1 = c\<lparr>transport := w\<rparr>
              in case r of
                   Inl x \<Rightarrow> (Inl x, c1)
                 | Inr response \<Rightarrow>
                     (case cluster_version_of (lib E) response of
                        Inl x \<Rightarrow> (Inl x, c1)
                      | Inr cluster_version \<Rightarrow>
                          (Inr (), c1\<lparr>version_prefix := select_prefix cluster_version\<rparr>))))
      else (Inr (), c))"

subsection \<open>Requests\<close>

text \<open>
  \<^verbatim>\<open>
  def call_rpc(self, method, fields=None):
      return self.api_execute(self.version_prefix + method, self._MPOST, fields)

  @staticmethod
  def base64_encode(v):
      return base64.b64encode(Etcd3Client.to_bytes(v)).decode('utf-8')

  def build_range_request(self, key, range_end=None):
      fields = {'key': self.base64_encode(key)}
      if range_end:
          fields['range_end'] = self.base64_encode(range_end)
      return fields

  def range(self, key, range_end=None):
      return self.call_rpc('/kv/range', self.build_range_request(key, range_end))

  def prefix(self, key):
      return self.range(key, self.increment_last_byte(key))
  \<close>
  A method of the client takes the client's state and returns its result, or the
  exception it raises, with the state afterwards. An argument left out is \<open>PNone\<close>.
\<close>

definition call_rpc ::
  "'w env \<Rightarrow> string \<Rightarrow> pyval \<Rightarrow> 'w client \<Rightarrow> (exn + pyval) \<times> 'w client" where
  "call_rpc E method flds c = api_execute E (version_prefix c @ method) MPOST flds c"

definition base64_encode :: "pylib \<Rightarrow> pyval \<Rightarrow> exn + pyval" where
  "base64_encode L v =
     (case to_bytes L v of
        Inl x \<Rightarrow> Inl x
      | Inr b \<Rightarrow>
          (case utf8_decode L (b64encode L b) of
             None \<Rightarrow> Inl UnicodeDecodeError
           | Some s \<Rightarrow> Inr (PStr s)))"

definition build_range_request :: "pylib \<Rightarrow> pyval \<Rightarrow> pyval \<Rightarrow> exn + pyval" where
  "build_range_request L key range_end =
     (case base64_encode L key of
        Inl x \<Rightarrow> Inl x
      | Inr k \<Rightarrow>
          (let flds = [(''key'', k)] in
           if truthy range_end then
             (case base64_encode L range_end of
                Inl x \<Rightarrow> Inl x
              | Inr r \<Rightarrow> Inr (PDict (dict_set flds ''range_end'' r)))
           else Inr (PDict flds)))"

definition range_kv ::
  "'w env \<Rightarrow> pyval \<Rightarrow> pyval \<Rightarrow> 'w client \<Rightarrow> (exn + pyval) \<times> 'w client" where
  "range_kv E key range_end c =
     (case build_range_request (lib E) key range_end of
        Inl x \<Rightarrow> (Inl x, c)
      | Inr flds \<Rightarrow> call_rpc E ''/kv/range'' flds c)"

definition prefix :: "'w env \<Rightarrow> pyval \<Rightarrow> 'w client \<Rightarrow> (exn + pyval) \<times> 'w client" where
  "prefix E key c =
     (case increment_last_byte (lib E) key of
        Inl x \<Rightarrow> (Inl x, c)
      | Inr range_end \<Rightarrow> range_kv E key range_end c)"

text \<open>
  \<^verbatim>\<open>
  def lease_grant(self, ttl):
      return self.call_rpc('/lease/grant', {'TTL': ttl})['ID']

  def lease_keepalive(self, ID):
      return self.call_rpc('/lease/keepalive', {'ID': ID}).get('result', {}).get('TTL')
  \<close>
\<close>

definition lease_grant :: "'w env \<Rightarrow> pyval \<Rightarrow> 'w client \<Rightarrow> (exn + pyval) \<times> 'w client" where
  "lease_grant E ttl c =
     (let (r, c1) = call_rpc E ''/lease/grant'' (PDict [(''TTL'', ttl)]) c in
      case r of
        Inl x \<Rightarrow> (Inl x, c1)
      | Inr v \<Rightarrow> (py_getitem v ''ID'', c1))"

definition lease_keepalive :: "'w env \<Rightarrow> pyval \<Rightarrow> 'w client \<Rightarrow> (exn + pyval) \<times> 'w client" where
  "lease_keepalive E ID c =
     (let (r, c1) = call_rpc E ''/lease/keepalive'' (PDict [(''ID'', ID)]) c in
      case r of
        Inl x \<Rightarrow> (Inl x, c1)
      | Inr v \<Rightarrow>
          (case py_get v ''result'' (PDict []) of
             Inl x \<Rightarrow> (Inl x, c1)
           | Inr res \<Rightarrow> (py_get res ''TTL'' PNone, c1)))"

text \<open>
  \<^verbatim>\<open>
  def put(self, key, value, lease=None, create_revision=None, mod_revision=None):
      fields = {'key': self.base64_encode(key), 'value': self.base64_encode(value)}
      if lease:
          fields['lease'] = lease
      if create_revision is not None:
          compare = {'target': 'CREATE', 'create_revision': create_revision}
      elif mod_revision is not None:
          compare = {'target': 'MOD', 'mod_revision': mod_revision}
      else:
          return self.call_rpc('/kv/put', fields)
      compare['key'] = fields['key']
      return self.call_rpc('/kv/txn', {'compare': [compare],
                                        'success': [{'request_put': fields}]}).get('succeeded')
  \<close>
  \<open>put_fields\<close> is the first statement and the \<^verbatim>\<open>if lease\<close> after it; \<open>txn\<close> is the
  last line, shared with \<^verbatim>\<open>deleterange\<close>: the transaction with one comparison and one
  request in its success branch, and \<^verbatim>\<open>.get('succeeded')\<close> on what it returns.
\<close>

definition put_fields :: "pylib \<Rightarrow> pyval \<Rightarrow> pyval \<Rightarrow> pyval \<Rightarrow> exn + (string \<times> pyval) list" where
  "put_fields L key val lease =
     (case base64_encode L key of
        Inl x \<Rightarrow> Inl x
      | Inr k \<Rightarrow>
          (case base64_encode L val of
             Inl x \<Rightarrow> Inl x
           | Inr v \<Rightarrow>
               (let flds = [(''key'', k), (''value'', v)] in
                Inr (if truthy lease then dict_set flds ''lease'' lease else flds))))"

definition txn ::
  "'w env \<Rightarrow> (string \<times> pyval) list \<Rightarrow> string \<Rightarrow> pyval \<Rightarrow> 'w client
     \<Rightarrow> (exn + pyval) \<times> 'w client" where
  "txn E compare request flds c =
     (let (r, c1) =
        call_rpc E ''/kv/txn''
          (PDict [(''compare'', PList [PDict compare]),
                  (''success'', PList [PDict [(request, flds)]])]) c
      in case r of
           Inl x \<Rightarrow> (Inl x, c1)
         | Inr v \<Rightarrow> (py_get v ''succeeded'' PNone, c1))"

definition put ::
  "'w env \<Rightarrow> pyval \<Rightarrow> pyval \<Rightarrow> pyval \<Rightarrow> pyval \<Rightarrow> pyval \<Rightarrow> 'w client
     \<Rightarrow> (exn + pyval) \<times> 'w client" where
  "put E key val lease create_revision mod_revision c =
     (case put_fields (lib E) key val lease of
        Inl x \<Rightarrow> (Inl x, c)
      | Inr flds \<Rightarrow>
          (case (if create_revision \<noteq> PNone then
                   Some [(''target'', PStr ''CREATE''), (''create_revision'', create_revision)]
                 else if mod_revision \<noteq> PNone then
                   Some [(''target'', PStr ''MOD''), (''mod_revision'', mod_revision)]
                 else None) of
             None \<Rightarrow> call_rpc E ''/kv/put'' (PDict flds) c
           | Some compare \<Rightarrow>
               (case py_getitem (PDict flds) ''key'' of
                  Inl x \<Rightarrow> (Inl x, c)
                | Inr k \<Rightarrow> txn E (dict_set compare ''key'' k) ''request_put'' (PDict flds) c)))"

text \<open>
  \<^verbatim>\<open>
  def deleterange(self, key, range_end=None, mod_revision=None):
      fields = self.build_range_request(key, range_end)
      if mod_revision is None:
          return self.call_rpc('/kv/deleterange', fields)
      compare = {'target': 'MOD', 'mod_revision': mod_revision, 'key': fields['key']}
      ret = self.call_rpc('/kv/txn', {'compare': [compare],
                                       'success': [{'request_delete_range': fields}]})
      return ret.get('succeeded')

  def deleteprefix(self, key):
      return self.deleterange(key, self.increment_last_byte(key))
  \<close>
\<close>

definition deleterange ::
  "'w env \<Rightarrow> pyval \<Rightarrow> pyval \<Rightarrow> pyval \<Rightarrow> 'w client \<Rightarrow> (exn + pyval) \<times> 'w client" where
  "deleterange E key range_end mod_revision c =
     (case build_range_request (lib E) key range_end of
        Inl x \<Rightarrow> (Inl x, c)
      | Inr flds \<Rightarrow>
          (if mod_revision = PNone then call_rpc E ''/kv/deleterange'' flds c
           else
             (case py_getitem flds ''key'' of
                Inl x \<Rightarrow> (Inl x, c)
              | Inr k \<Rightarrow>
                  txn E [(''target'', PStr ''MOD''), (''mod_revision'', mod_revision), (''key'', k)]
                    ''request_delete_range'' flds c)))"

definition deleteprefix :: "'w env \<Rightarrow> pyval \<Rightarrow> 'w client \<Rightarrow> (exn + pyval) \<times> 'w client" where
  "deleteprefix E key c =
     (case increment_last_byte (lib E) key of
        Inl x \<Rightarrow> (Inl x, c)
      | Inr range_end \<Rightarrow> deleterange E key range_end PNone c)"

section \<open>The driver\<close>

subsection \<open>Retrying\<close>

text \<open>
  \<^verbatim>\<open>
  class Etcd3(AbstractEtcd):
      def __init__(self, config):
          super(Etcd3, self).__init__(config, Etcd3Client, Etcd3ClientError)
          self._retry = Retry(deadline=config['retry_timeout'], max_delay=1, max_tries=-1,
                              retry_exceptions=(DeadlineExceeded, Unavailable))
  \<close>
  \<open>isinstance_any e cs\<close> is \<^verbatim>\<open>isinstance(e, cs)\<close> for a tuple of classes of the
  hierarchy, which is also the test of \<^verbatim>\<open>except cs\<close>.
\<close>

definition retry_exceptions :: "kind list" where
  "retry_exceptions = [DeadlineExceeded, Unavailable]"

definition isinstance_any :: "exn \<Rightarrow> kind list \<Rightarrow> bool" where
  "isinstance_any e cs =
     (case e of ClientError ce \<Rightarrow> list_ex (issubclass (err_class ce)) cs | _ \<Rightarrow> False)"

text \<open>
  Modelled from the spec: \<^verbatim>\<open>self.retry(f, *args)\<close> runs the bounded-retry primitive
  \<^verbatim>\<open>patroni.utils.Retry\<close>, which is not part of this file. It calls \<^verbatim>\<open>f\<close>; a result
  or an exception that is not an instance of \<^verbatim>\<open>retry_exceptions\<close> ends it; after an
  instance of \<^verbatim>\<open>retry_exceptions\<close> it calls \<^verbatim>\<open>f\<close> again, unless the deadline has
  passed, and then it raises \<^verbatim>\<open>RetryFailedError\<close>. The number of further attempts the
  deadline leaves room for is \<open>retry_budget\<close> of the outside state at the start.
\<close>

primrec retry_loop :: "nat \<Rightarrow> ('s \<Rightarrow> (exn + 'a) \<times> 's) \<Rightarrow> 's \<Rightarrow> (exn + 'a) \<times> 's" where
  "retry_loop 0 f s =
     (case f s of
        (Inr v, s1) \<Rightarrow> (Inr v, s1)
      | (Inl e, s1) \<Rightarrow>
          if isinstance_any e retry_exceptions then (Inl RetryFailedError, s1) else (Inl e, s1))"
| "retry_loop (Suc n) f s =
     (case f s of
        (Inr v, s1) \<Rightarrow> (Inr v, s1)
      | (Inl e, s1) \<Rightarrow>
          if isinstance_any e retry_exceptions then retry_loop n f s1 else (Inl e, s1))"

definition world :: "'w etcd3 \<Rightarrow> 'w" where
  "world d = transport (self_client d)"

definition retry ::
  "'w env \<Rightarrow> ('w etcd3 \<Rightarrow> (exn + 'a) \<times> 'w etcd3) \<Rightarrow> 'w etcd3 \<Rightarrow> (exn + 'a) \<times> 'w etcd3" where
  "retry E f d = retry_loop (retry_budget E (world d)) f d"

text \<open>A method of \<^verbatim>\<open>self._client\<close>, run on the driver's state.\<close>

definition on_client ::
  "('w client \<Rightarrow> 'a \<times> 'w client) \<Rightarrow> 'w etcd3 \<Rightarrow> 'a \<times> 'w etcd3" where
  "on_client m d = (let (r, c) = m (self_client d) in (r, d\<lparr>self_client := c\<rparr>))"

subsection \<open>The lease\<close>

text \<open>
  \<^verbatim>\<open>
  def _do_refresh_lease(self):
      if self._lease and self._last_lease_refresh + self._loop_wait > time.time():
          return False

      if self._lease and not self._client.lease_keepalive(self._lease):
          self._lease = None

      ret = not self._lease
      if ret:
          self._lease = self._client.lease_grant(self._ttl)

      self._last_lease_refresh = time.time()
      return ret
  \<close>
  \<open>keepalive_step\<close> is the second statement, \<open>grant_step\<close> the rest.
\<close>

definition keepalive_step :: "'w env \<Rightarrow> 'w etcd3 \<Rightarrow> (exn + unit) \<times> 'w etcd3" where
  "keepalive_step E d =
     (if truthy (self_lease d) then
        (case on_client (lease_keepalive E (self_lease d)) d of
           (Inl x, d1) \<Rightarrow> (Inl x, d1)
         | (Inr t, d1) \<Rightarrow>
             (Inr (), if \<not> truthy t then d1\<lparr>self_lease := PNone\<rparr> else d1))
      else (Inr (), d))"

definition grant_step :: "'w env \<Rightarrow> 'w etcd3 \<Rightarrow> (exn + bool) \<times> 'w etcd3" where
  "grant_step E d =
     (let ret = \<not> truthy (self_lease d) in
      case (if ret then
              (case on_client (lease_grant E (self_ttl d)) d of
                 (Inl x, d1) \<Rightarrow> (Inl x, d1)
               | (Inr l, d1) \<Rightarrow> (Inr (), d1\<lparr>self_lease := l\<rparr>))
            else (Inr (), d)) of
        (Inl x, d2) \<Rightarrow> (Inl x, d2)
      | (Inr _, d2) \<Rightarrow>
          (Inr ret, d2\<lparr>self_last_lease_refresh := time_time E (world d2)\<rparr>))"

definition do_refresh_lease :: "'w env \<Rightarrow> 'w etcd3 \<Rightarrow> (exn + bool) \<times> 'w etcd3" where
  "do_refresh_lease E d =
     (if truthy (self_lease d) \<and>
         self_last_lease_refresh d + self_loop_wait d > time_time E (world d)
      then (Inr False, d)
      else
        (case keepalive_step E d of
           (Inl x, d1) \<Rightarrow> (Inl x, d1)
         | (Inr _, d1) \<Rightarrow> grant_step E d1))"

text \<open>
  \<^verbatim>\<open>
  def refresh_lease(self):
      try:
          return self.retry(self._do_refresh_lease)
      except (Etcd3ClientError, RetryFailedError):
          logger.exception('refresh_lease')
      raise EtcdError('Failed ro keepalive/grant lease')
  \<close>
\<close>

definition refresh_lease :: "'w env \<Rightarrow> 'w etcd3 \<Rightarrow> (exn + bool) \<times> 'w etcd3" where
  "refresh_lease E d =
     (case retry E (do_refresh_lease E) d of
        (Inr v, d1) \<Rightarrow> (Inr v, d1)
      | (Inl e, d1) \<Rightarrow>
          if isinstance_any e [Etcd3ClientError] \<or> e = RetryFailedError
          then (Inl (EtcdError ''Failed ro keepalive/grant lease''), d1)
          else (Inl e, d1))"

subsection \<open>Leader election\<close>

text \<open>
  \<^verbatim>\<open>
  def _do_attempt_to_acquire_leader(self, permanent):
      try:
          return self.retry(self._client.put, self.leader_path, self._name,
                            None if permanent else self._lease, 0)
      except LeaseNotFound:
          self._lease = None
          logger.error('Our lease disappeared from Etcd. Will try to get a new one ...')
          self.refresh_lease()
          return self.retry(self._client.put, self.leader_path, self._name,
                            None if permanent else self._lease, 0)

  def attempt_to_acquire_leader(self, permanent=False):
      if not self._lease and not permanent:
          self.refresh_lease()

      ret = self._do_attempt_to_acquire_leader(permanent)
      if not ret:
          logger.info('Could not take out TTL lock')
      return ret
  \<close>
  \<open>cas_put\<close> is the call \<^verbatim>\<open>self.retry(self._client.put, ...)\<close> that occurs twice; the
  lease is read when the call is made. Logging has no effect on the state modelled.
\<close>

definition cas_put :: "'w env \<Rightarrow> bool \<Rightarrow> 'w etcd3 \<Rightarrow> (exn + pyval) \<times> 'w etcd3" where
  "cas_put E permanent d =
     retry E
       (on_client
          (put E (self_leader_path d) (self_name d)
             (if permanent then PNone else self_lease d) (PInt 0) PNone)) d"

definition do_attempt_to_acquire_leader ::
  "'w env \<Rightarrow> bool \<Rightarrow> 'w etcd3 \<Rightarrow> (exn + pyval) \<times> 'w etcd3" where
  "do_attempt_to_acquire_leader E permanent d =
     (case cas_put E permanent d of
        (Inr v, d1) \<Rightarrow> (Inr v, d1)
      | (Inl e, d1) \<Rightarrow>
          if isinstance_any e [LeaseNotFound] then
            (let d2 = d1\<lparr>self_lease := PNone\<rparr> in
             case refresh_lease E d2 of
               (Inl x, d3) \<Rightarrow> (Inl x, d3)
             | (Inr _, d3) \<Rightarrow> cas_put E permanent d3)
          else (Inl e, d1))"

definition attempt_to_acquire_leader ::
  "'w env \<Rightarrow> bool \<Rightarrow> 'w etcd3 \<Rightarrow> (exn + pyval) \<times> 'w etcd3" where
  "attempt_to_acquire_leader E permanent d =
     (case (if \<not> truthy (self_lease d) \<and> \<not> permanent
            then (case refresh_lease E d of
                    (Inl x, d1) \<Rightarrow> (Inl x, d1)
                  | (Inr _, d1) \<Rightarrow> (Inr (), d1))
            else (Inr (), d)) of
        (Inl x, d1) \<Rightarrow> (Inl x, d1)
      | (Inr _, d1) \<Rightarrow> do_attempt_to_acquire_leader E permanent d1)"

text \<open>
  \<^verbatim>\<open>
  @catch_etcd_errors
  def delete_leader(self):
      cluster = self.cluster
      if cluster and isinstance(cluster.leader, Leader) and cluster.leader.name == self._name:
          return self._client.deleterange(self.leader_path, mod_revision=cluster.leader.index)
  \<close>
  A \<^verbatim>\<open>Cluster\<close> is a non-empty tuple and so true; its \<^verbatim>\<open>leader\<close> is a \<^verbatim>\<open>Leader\<close> or
  \<^verbatim>\<open>None\<close>. \<open>delete_leader_body\<close> is the method as written, \<open>delete_leader\<close> the
  decorated method the class has.
\<close>

definition delete_leader_body :: "'w env \<Rightarrow> 'w etcd3 \<Rightarrow> (exn + pyval) \<times> 'w etcd3" where
  "delete_leader_body E d =
     (case self_cluster d of
        None \<Rightarrow> (Inr PNone, d)
      | Some cluster \<Rightarrow>
          (case cl_leader cluster of
             None \<Rightarrow> (Inr PNone, d)
           | Some l \<Rightarrow>
               if leader_name E l = self_name d then
                 on_client (deleterange E (self_leader_path d) PNone (lead_index l)) d
               else (Inr PNone, d)))"

definition delete_leader :: "'w env \<Rightarrow> 'w etcd3 \<Rightarrow> (exn + pyval) \<times> 'w etcd3" where
  "delete_leader E d =
     (let (r, d1) = delete_leader_body E d in catch_etcd_errors E r d1)"

subsection \<open>Loading the cluster\<close>

text \<open>
  \<^verbatim>\<open>
  def base64_decode(v):
      return base64.b64decode(v).decode('utf-8')
  ...
  for node in result.get('kvs', []):
      node['key'] = base64_decode(node['key'])
      node['value'] = base64_decode(node.get('value', ''))
      node['lease'] = node.get('lease')
      nodes[node['key'][len(path):].lstrip('/')] = node
  \<close>
  Every exception inside \<^verbatim>\<open>_load_cluster\<close> is caught by one \<^verbatim>\<open>except Exception\<close>,
  so which exception a failing step raises does not matter; a failure of
  \<^verbatim>\<open>b64decode\<close> is written as a ValueError. \<open>py_iter\<close> gives the elements a
  \<^verbatim>\<open>for\<close> loop visits.
\<close>

definition base64_decode :: "pylib \<Rightarrow> pyval \<Rightarrow> exn + pyval" where
  "base64_decode L v =
     (case b64decode L v of
        None \<Rightarrow> Inl ValueError
      | Some b \<Rightarrow>
          (case utf8_decode L b of None \<Rightarrow> Inl UnicodeDecodeError | Some s \<Rightarrow> Inr (PStr s)))"

definition py_iter :: "pyval \<Rightarrow> exn + pyval list" where
  "py_iter v =
     (case v of
        PList xs \<Rightarrow> Inr xs
      | PDict kvs \<Rightarrow> Inr (map (\<lambda>(k, _). PStr k) kvs)
      | PStr s \<Rightarrow> Inr (map (\<lambda>c. PStr [c]) s)
      | PBytes b \<Rightarrow> Inr (map (\<lambda>x. PInt (uint x)) b)
      | _ \<Rightarrow> Inl TypeError)"

definition lstrip_char :: "char \<Rightarrow> string \<Rightarrow> string" where
  "lstrip_char c s = dropWhile (\<lambda>x. x = c) s"

definition decode_node :: "pylib \<Rightarrow> string \<Rightarrow> pyval \<Rightarrow> exn + string \<times> pyval" where
  "decode_node L path node =
     (case py_getitem node ''key'' of
        Inl x \<Rightarrow> Inl x
      | Inr k0 \<Rightarrow>
     (case base64_decode L k0 of
        Inl x \<Rightarrow> Inl x
      | Inr k \<Rightarrow>
     (case py_get node ''value'' (PStr []) of
        Inl x \<Rightarrow> Inl x
      | Inr v0 \<Rightarrow>
     (case base64_decode L v0 of
        Inl x \<Rightarrow> Inl x
      | Inr v \<Rightarrow>
     (case py_get node ''lease'' PNone of
        Inl x \<Rightarrow> Inl x
      | Inr l \<Rightarrow>
     (case (node, k) of
        (PDict kvs, PStr ks) \<Rightarrow>
          Inr (lstrip_char (CHR ''/'') (drop (length path) ks),
               PDict (dict_set (dict_set (dict_set kvs ''key'' k) ''value'' v) ''lease'' l))
      | _ \<Rightarrow> Inl TypeError))))))"

fun load_nodes ::
  "pylib \<Rightarrow> string \<Rightarrow> pyval list \<Rightarrow> (string \<times> pyval) list \<Rightarrow> exn + (string \<times> pyval) list" where
  "load_nodes L path [] nodes = Inr nodes"
| "load_nodes L path (node # rest) nodes =
     (case decode_node L path node of
        Inl x \<Rightarrow> Inl x
      | Inr (k, n) \<Rightarrow> load_nodes L path rest (dict_set nodes k n))"

text \<open>
  \<^verbatim>\<open>nodes.get(k)\<close>; \<^verbatim>\<open>x and y\<close>, where \<^verbatim>\<open>y\<close> may raise; and the two arguments
  \<^verbatim>\<open>node['mod_revision'], node['value']\<close> of a \<^verbatim>\<open>from_node\<close>.
\<close>

definition nodes_get :: "(string \<times> pyval) list \<Rightarrow> string \<Rightarrow> pyval" where
  "nodes_get nodes k = (case map_of nodes k of None \<Rightarrow> PNone | Some n \<Rightarrow> n)"

definition py_and :: "pyval \<Rightarrow> exn + pyval \<Rightarrow> exn + pyval" where
  "py_and x y = (if truthy x then y else Inr x)"

definition from_node :: "(pyval \<Rightarrow> pyval \<Rightarrow> exn + 'a) \<Rightarrow> pyval \<Rightarrow> exn + 'a" where
  "from_node f node =
     (case py_getitem node ''mod_revision'' of
        Inl x \<Rightarrow> Inl x
      | Inr r \<Rightarrow> (case py_getitem node ''value'' of Inl x \<Rightarrow> Inl x | Inr v \<Rightarrow> f r v))"

text \<open>
  \<^verbatim>\<open>
  last_leader_operation = nodes.get(self._LEADER_OPTIME)
  last_leader_operation = 0 if last_leader_operation is None
                          else int(last_leader_operation['value'])
  \<close>
\<close>

definition int_of_pyval :: "pyval \<Rightarrow> exn + int" where
  "int_of_pyval v =
     (case v of
        PStr s \<Rightarrow> py_int s
      | PBytes b \<Rightarrow> py_int (map (\<lambda>x. char_of (unat x)) b)
      | PInt i \<Rightarrow> Inr i
      | PBool b \<Rightarrow> Inr (if b then 1 else 0)
      | _ \<Rightarrow> Inl TypeError)"

definition get_last_leader_operation :: "(string \<times> pyval) list \<Rightarrow> string \<Rightarrow> exn + int" where
  "get_last_leader_operation nodes k =
     (let n = nodes_get nodes k in
      if n = PNone then Inr 0
      else (case py_getitem n ''value'' of Inl x \<Rightarrow> Inl x | Inr v \<Rightarrow> int_of_pyval v))"

text \<open>
  \<^verbatim>\<open>
  @staticmethod
  def member(node):
      return Member.from_node(node['mod_revision'], os.path.basename(node['key']),
                              node['lease'], node['value'])
  ...
  members = [self.member(n) for k, n in nodes.items()
             if k.startswith(self._MEMBERS) and k.count('/') == 1]
  \<close>
\<close>

definition basename :: "pyval \<Rightarrow> exn + pyval" where
  "basename p =
     (case p of
        PStr s \<Rightarrow> Inr (PStr (rev (takeWhile (\<lambda>c. c \<noteq> CHR ''/'') (rev s))))
      | _ \<Rightarrow> Inl TypeError)"

definition member_of_node :: "'w env \<Rightarrow> pyval \<Rightarrow> exn + member" where
  "member_of_node E node =
     (case py_getitem node ''mod_revision'' of
        Inl x \<Rightarrow> Inl x
      | Inr r \<Rightarrow>
     (case py_getitem node ''key'' of
        Inl x \<Rightarrow> Inl x
      | Inr k \<Rightarrow>
     (case basename k of
        Inl x \<Rightarrow> Inl x
      | Inr b \<Rightarrow>
     (case py_getitem node ''lease'' of
        Inl x \<Rightarrow> Inl x
      | Inr l \<Rightarrow>
     (case py_getitem node ''value'' of
        Inl x \<Rightarrow> Inl x
      | Inr v \<Rightarrow> member_from_node E r b l v)))))"

definition startswith :: "string \<Rightarrow> string \<Rightarrow> bool" where
  "startswith s p = (take (length p) s = p)"

fun get_members :: "'w env \<Rightarrow> (string \<times> pyval) list \<Rightarrow> exn + member list" where
  "get_members E [] = Inr []"
| "get_members E ((k, n) # rest) =
     (if startswith k (k_MEMBERS (key_names E)) \<and> count_list k (CHR ''/'') = 1 then
        (case member_of_node E n of
           Inl x \<Rightarrow> Inl x
         | Inr m \<Rightarrow> (case get_members E rest of Inl x \<Rightarrow> Inl x | Inr ms \<Rightarrow> Inr (m # ms)))
      else get_members E rest)"

text \<open>
  \<^verbatim>\<open>
  leader = nodes.get(self._LEADER)
  if leader:
      member = Member(-1, leader['value'], None, {})
      member = ([m for m in members if m.name == leader['value']] or [member])[0]
      leader = Leader(leader['mod_revision'], leader['lease'], member)
  \<close>
  A node that is present is a dictionary with at least the keys the loop has stored, so
  it is true; the model has no leader for any false value.
\<close>

definition get_leader :: "member list \<Rightarrow> (string \<times> pyval) list \<Rightarrow> string \<Rightarrow> exn + leader option" where
  "get_leader members nodes k =
     (let l = nodes_get nodes k in
      if truthy l then
        (case py_getitem l ''value'' of
           Inl x \<Rightarrow> Inl x
         | Inr v \<Rightarrow>
             (let member = \<lparr>mem_index = PInt (- 1), mem_name = v, mem_session = PNone,
                             mem_data = PDict []\<rparr>;
                  member = (case filter (\<lambda>m. mem_name m = v) members of
                              [] \<Rightarrow> member
                            | m # _ \<Rightarrow> m)
              in case py_getitem l ''mod_revision'' of
                   Inl x \<Rightarrow> Inl x
                 | Inr r \<Rightarrow>
                     (case py_getitem l ''lease'' of
                        Inl x \<Rightarrow> Inl x
                      | Inr s \<Rightarrow>
                          Inr (Some \<lparr>lead_index = r, lead_session = s, lead_member = member\<rparr>))))
      else Inr None)"

text \<open>
  \<^verbatim>\<open>
  initialize = nodes.get(self._INITIALIZE)
  initialize = initialize and initialize['value']
  config = nodes.get(self._CONFIG)
  config = config and ClusterConfig.from_node(config['mod_revision'], config['value'])
  history = nodes.get(self._HISTORY)
  history = history and TimelineHistory.from_node(history['mod_revision'], history['value'])
  ...
  failover = nodes.get(self._FAILOVER)
  if failover:
      failover = Failover.from_node(failover['mod_revision'], failover['value'])
  sync = nodes.get(self._SYNC)
  sync = SyncState.from_node(sync and sync['mod_revision'], sync and sync['value'])
  cluster = Cluster(initialize, config, leader, last_leader_operation, members, failover,
                    sync, history)
  \<close>
  \<open>cluster_of_nodes\<close> is the body of the \<^verbatim>\<open>try\<close> after the loop, in the order of the
  source.
\<close>

definition get_sync :: "'w env \<Rightarrow> pyval \<Rightarrow> exn + pyval" where
  "get_sync E sync =
     (case py_and sync (py_getitem sync ''mod_revision'') of
        Inl x \<Rightarrow> Inl x
      | Inr r \<Rightarrow>
          (case py_and sync (py_getitem sync ''value'') of
             Inl x \<Rightarrow> Inl x
           | Inr v \<Rightarrow> sync_from_node E r v))"

definition cluster_of_nodes :: "'w env \<Rightarrow> (string \<times> pyval) list \<Rightarrow> exn + cluster" where
  "cluster_of_nodes E nodes =
     (let K = key_names E;
          initialize = nodes_get nodes (k_INITIALIZE K);
          config = nodes_get nodes (k_CONFIG K);
          history = nodes_get nodes (k_HISTORY K);
          failover = nodes_get nodes (k_FAILOVER K)
      in
     case py_and initialize (py_getitem initialize ''value'') of
       Inl x \<Rightarrow> Inl x
     | Inr initialize \<Rightarrow>
     (case py_and config (from_node (config_from_node E) config) of
       Inl x \<Rightarrow> Inl x
     | Inr config \<Rightarrow>
     (case py_and history (from_node (history_from_node E) history) of
       Inl x \<Rightarrow> Inl x
     | Inr history \<Rightarrow>
     (case get_last_leader_operation nodes (k_LEADER_OPTIME K) of
       Inl x \<Rightarrow> Inl x
     | Inr last_leader_operation \<Rightarrow>
     (case get_members E nodes of
       Inl x \<Rightarrow> Inl x
     | Inr members \<Rightarrow>
     (case get_leader members nodes (k_LEADER K) of
       Inl x \<Rightarrow> Inl x
     | Inr leader \<Rightarrow>
     (case py_and failover (from_node (failover_from_node E) failover) of
       Inl x \<Rightarrow> Inl x
     | Inr failover \<Rightarrow>
     (case get_sync E (nodes_get nodes (k_SYNC K)) of
       Inl x \<Rightarrow> Inl x
     | Inr sync \<Rightarrow>
         Inr \<lparr>cl_initialize = initialize, cl_config = config, cl_leader = leader,
              cl_last_leader_operation = last_leader_operation, cl_members = members,
              cl_failover = failover, cl_sync = sync, cl_history = history\<rparr>))))))))"

text \<open>
  \<^verbatim>\<open>
  def _load_cluster(self):
      cluster = None
      try:
          path = self.client_path('')
          result = self.retry(self._client.prefix, path)
          nodes = {}
          for node in result.get('kvs', []):
              ...
          cluster = Cluster(...)
      except Exception as e:
          self._handle_exception(e, 'get_cluster',
                                 raise_ex=EtcdError('Etcd is not responding properly'))
      self._has_failed = False
      return cluster
  \<close>
\<close>

definition cluster_of_result :: "'w env \<Rightarrow> string \<Rightarrow> pyval \<Rightarrow> exn + cluster" where
  "cluster_of_result E path result =
     (case py_get result ''kvs'' (PList []) of
        Inl x \<Rightarrow> Inl x
      | Inr kvs \<Rightarrow>
          (case py_iter kvs of
             Inl x \<Rightarrow> Inl x
           | Inr ns \<Rightarrow>
               (case load_nodes (lib E) path ns [] of
                  Inl x \<Rightarrow> Inl x
                | Inr nodes \<Rightarrow> cluster_of_nodes E nodes)))"

definition load_cluster :: "'w env \<Rightarrow> 'w etcd3 \<Rightarrow> (exn + cluster option) \<times> 'w etcd3" where
  "load_cluster E d =
     (let path = client_path E [];
          (r, d1) = retry E (on_client (prefix E (PStr path))) d;
          c = (case r of Inl x \<Rightarrow> Inl x | Inr result \<Rightarrow> cluster_of_result E path result)
      in case c of
           Inr cluster \<Rightarrow> (Inr (Some cluster), d1\<lparr>self_has_failed := False\<rparr>)
         | Inl e \<Rightarrow>
             (case handle_exception E e ''get_cluster''
                     (EtcdError ''Etcd is not responding properly'') d1 of
                (Inl x, d2) \<Rightarrow> (Inl x, d2)
              | (Inr _, d2) \<Rightarrow> (Inr None, d2\<lparr>self_has_failed := False\<rparr>)))"

text \<open>
  What the loop of \<^verbatim>\<open>_load_cluster\<close> stores: a dictionary whose \<^verbatim>\<open>key\<close> and
  \<^verbatim>\<open>value\<close> are strings and which has a \<^verbatim>\<open>lease\<close>. Every node of the index is one.
\<close>

definition decoded_node :: "pyval \<Rightarrow> bool" where
  "decoded_node n =
     (case n of
        PDict kvs \<Rightarrow>
          (case (map_of kvs ''key'', map_of kvs ''value'', map_of kvs ''lease'') of
             (Some (PStr _), Some (PStr _), Some _) \<Rightarrow> True
           | _ \<Rightarrow> False)
      | _ \<Rightarrow> False)"

section \<open>A library and collaborators for concrete examples\<close>

text \<open>
  The theorems below hold for every library and every collaborator. Concrete examples
  need an instance. \<open>example_lib\<close> has the UTF-8 codec on ASCII text, base64 (the
  decoder accepts padded, well-formed input only) and, in place of a JSON parser, a table
  of the response bodies the examples use.
\<close>

definition b64_char :: "nat \<Rightarrow> nat" where
  "b64_char v =
     (if v < 26 then v + 65 else if v < 52 then v + 71 else if v < 62 then v - 4
      else if v = 62 then 43 else 47)"

fun b64_encode_nat :: "nat list \<Rightarrow> nat list" where
  "b64_encode_nat [] = []"
| "b64_encode_nat [a] = [b64_char (a div 4), b64_char ((a mod 4) * 16), 61, 61]"
| "b64_encode_nat [a, b] =
     [b64_char (a div 4), b64_char ((a mod 4) * 16 + b div 16), b64_char ((b mod 16) * 4), 61]"
| "b64_encode_nat (a # b # c # rest) =
     [b64_char (a div 4), b64_char ((a mod 4) * 16 + b div 16),
      b64_char ((b mod 16) * 4 + c div 64), b64_char (c mod 64)] @ b64_encode_nat rest"

definition b64_index :: "nat \<Rightarrow> nat option" where
  "b64_index n =
     (if 65 \<le> n \<and> n \<le> 90 then Some (n - 65)
      else if 97 \<le> n \<and> n \<le> 122 then Some (n - 71)
      else if 48 \<le> n \<and> n \<le> 57 then Some (n + 4)
      else if n = 43 then Some 62
      else if n = 47 then Some 63
      else None)"

fun b64_decode_nat :: "nat list \<Rightarrow> nat list option" where
  "b64_decode_nat [] = Some []"
| "b64_decode_nat [a, b, c, d] =
     (case (b64_index a, b64_index b) of
        (Some x, Some y) \<Rightarrow>
          (if c = 61 \<and> d = 61 then Some [x * 4 + y div 16]
           else
             (case b64_index c of
                None \<Rightarrow> None
              | Some z \<Rightarrow>
                  (if d = 61 then Some [x * 4 + y div 16, (y mod 16) * 16 + z div 4]
                   else
                     (case b64_index d of
                        None \<Rightarrow> None
                      | Some u \<Rightarrow>
                          Some [x * 4 + y div 16, (y mod 16) * 16 + z div 4, (z mod 4) * 64 + u]))))
      | _ \<Rightarrow> None)"
| "b64_decode_nat (a # b # c # d # rest) =
     (case (b64_index a, b64_index b, b64_index c, b64_index d, b64_decode_nat rest) of
        (Some x, Some y, Some z, Some u, Some r) \<Rightarrow>
          Some ([x * 4 + y div 16, (y mod 16) * 16 + z div 4, (z mod 4) * 64 + u] @ r)
      | _ \<Rightarrow> None)"
| "b64_decode_nat _ = None"

definition example_json :: "(string \<times> pyval) list" where
  "example_json =
     [(''{\"etcdcluster\": \"3.2.9\"}'', PDict [(''etcdcluster'', PStr ''3.2.9'')]),
      (''{\"etcdcluster\": \"3.3.5\"}'', PDict [(''etcdcluster'', PStr ''3.3.5'')]),
      (''{\"etcdcluster\": \"3.5.0\"}'', PDict [(''etcdcluster'', PStr ''3.5.0'')]),
      (''{\"error\": \"etcdserver: no leader\", \"code\": 14}'',
         PDict [(''error'', PStr ''etcdserver: no leader''), (''code'', PInt 14)]),
      (''{\"error\": \"no such condition\", \"code\": 2}'',
         PDict [(''error'', PStr ''no such condition''), (''code'', PInt 2)]),
      (''{\"error\": \"a precondition failed\", \"code\": 9}'',
         PDict [(''error'', PStr ''a precondition failed''), (''code'', PInt 9)])]"

definition example_lib :: pylib where
  "example_lib =
     \<lparr>utf8_encode = map (\<lambda>c. of_nat (of_char c)),
      utf8_decode = (\<lambda>b. if list_all (\<lambda>x. x < 128) b
                          then Some (map (\<lambda>x. char_of (unat x)) b) else None),
      b64encode = (\<lambda>b. map of_nat (b64_encode_nat (map unat b))),
      b64decode = (\<lambda>v. case v of
                          PStr s \<Rightarrow> map_option (map of_nat) (b64_decode_nat (map of_char s))
                        | PBytes b \<Rightarrow> map_option (map of_nat) (b64_decode_nat (map unat b))
                        | _ \<Rightarrow> None),
      json_loads = map_of example_json,
      json_dumps = (\<lambda>v. None)\<rparr>"

text \<open>
  The outside state of the examples: every request sent, the answers the servers will
  give to the RPCs (in order), the answer to \<^verbatim>\<open>GET /version\<close> and a clock that a
  request advances by one second. \<open>example_env\<close> records each request and plays the
  answers back. Its other collaborators are simple versions of those of
  \<^verbatim>\<open>patroni.dcs\<close>: a leader's name is its member's name, the decorator turns a result
  into \<^verbatim>\<open>result is not None\<close> and an exception into \<^verbatim>\<open>False\<close>,
  \<^verbatim>\<open>_handle_exception\<close> sets the failure flag and raises the exception it is given, the
  namespace is \<^verbatim>\<open>/service/batman/\<close>, and the \<^verbatim>\<open>from_node\<close> constructors keep their
  arguments as they are.
\<close>

record sim =
  sim_requests :: "(string \<times> string \<times> pyval) list"
  sim_responses :: "(exn + pyval) list"
  sim_version :: response
  sim_clock :: real

definition example_api_execute ::
  "string \<Rightarrow> string \<Rightarrow> pyval \<Rightarrow> sim client \<Rightarrow> (exn + pyval) \<times> sim client" where
  "example_api_execute path method flds c =
     (let w = transport c;
          w1 = w\<lparr>sim_requests := sim_requests w @ [(method, path, flds)],
                 sim_clock := sim_clock w + 1\<rparr>
      in case sim_responses w of
           [] \<Rightarrow> (Inl (ExternalError ''no server''), c\<lparr>transport := w1\<rparr>)
         | r # rs \<Rightarrow> (r, c\<lparr>transport := w1\<lparr>sim_responses := rs\<rparr>\<rparr>))"

definition example_urlopen ::
  "string \<Rightarrow> string \<Rightarrow> pyval \<Rightarrow> sim \<Rightarrow> (exn + response) \<times> sim" where
  "example_urlopen method url kwargs w =
     (Inr (sim_version w),
      w\<lparr>sim_requests := sim_requests w @ [(method, url, kwargs)], sim_clock := sim_clock w + 1\<rparr>)"

definition example_keys :: key_names where
  "example_keys =
     \<lparr>k_INITIALIZE = ''initialize'', k_CONFIG = ''config'', k_HISTORY = ''history'',
      k_LEADER_OPTIME = ''optime/leader'', k_MEMBERS = ''members/'', k_LEADER = ''leader'',
      k_FAILOVER = ''failover'', k_SYNC = ''sync''\<rparr>"

definition example_from_node :: "pyval \<Rightarrow> pyval \<Rightarrow> exn + pyval" where
  "example_from_node r v = Inr (PDict [(''index'', r), (''value'', v)])"

definition example_env :: "sim env" where
  "example_env =
     \<lparr>lib = example_lib,
      build_request_parameters = (\<lambda>c. PDict [(''headers'', PDict []), (''timeout'', PInt 2)]),
      urlopen = example_urlopen,
      api_execute = example_api_execute,
      time_time = sim_clock,
      retry_budget = (\<lambda>w. 2),
      leader_name = (\<lambda>l. mem_name (lead_member l)),
      catch_etcd_errors =
        (\<lambda>r d. (case r of Inl e \<Rightarrow> Inr (PBool False) | Inr v \<Rightarrow> Inr (PBool (v \<noteq> PNone)), d)),
      handle_exception = (\<lambda>e n raise_ex d. (Inl raise_ex, d\<lparr>self_has_failed := True\<rparr>)),
      client_path = (\<lambda>p. ''/service/batman/'' @ lstrip_char (CHR ''/'') p),
      key_names = example_keys,
      member_from_node =
        (\<lambda>i n s v. Inr \<lparr>mem_index = i, mem_name = n, mem_session = s, mem_data = v\<rparr>),
      config_from_node = example_from_node,
      history_from_node = example_from_node,
      failover_from_node = example_from_node,
      sync_from_node = example_from_node\<rparr>"

definition example_client :: "(exn + pyval) list \<Rightarrow> sim client" where
  "example_client answers =
     \<lparr>version_prefix = ''/v3beta'', base_uri = ''http://127.0.0.1:2379'',
      transport = \<lparr>sim_requests = [], sim_responses = answers,
                    sim_version = \<lparr>resp_status = 200, resp_data = []\<rparr>, sim_clock = 100\<rparr>\<rparr>"

definition example_driver :: "pyval \<Rightarrow> (exn + pyval) list \<Rightarrow> sim etcd3" where
  "example_driver l answers =
     \<lparr>self_client = example_client answers, self_lease = l, self_last_lease_refresh = 0,
      self_do_not_watch = False, self_loop_wait = 10, self_ttl = PInt 30,
      self_name = PStr ''node1'', self_leader_path = PStr ''/service/batman/leader'',
      self_cluster = None, self_has_failed = False\<rparr>"

text \<open>A response with the given status whose body is the given text.\<close>

definition example_response :: "int \<Rightarrow> string \<Rightarrow> response" where
  "example_response st body = \<lparr>resp_status = st, resp_data = utf8_encode example_lib body\<rparr>"

subsection \<open>States of the examples\<close>

text \<open>A client whose prefix is \<^verbatim>\<open>/v3beta\<close> and whose server reports the given version body.\<close>

definition version_client :: "string \<Rightarrow> sim client" where
  "version_client body =
     \<lparr>version_prefix = ''/v3beta'', base_uri = ''http://127.0.0.1:2379'',
      transport = \<lparr>sim_requests = [], sim_responses = [],
                    sim_version = example_response 200 body, sim_clock = 100\<rparr>\<rparr>"

text \<open>
  A driver holding lease 7 whose servers answer the first request with ``requested lease
  not found'', the second with a lease 8 and the third with success.
\<close>

definition lease_not_found :: client_error where
  "lease_not_found =
     \<lparr>err_class = LeaseNotFound, err_error = PStr ''etcdserver: requested lease not found'',
      err_codeText = None, err_status = PInt 404\<rparr>"

definition lost_lease_driver :: "sim etcd3" where
  "lost_lease_driver =
     example_driver (PInt 7)
       [Inl (ClientError lease_not_found), Inr (PDict [(''ID'', PInt 8)]),
        Inr (PDict [(''succeeded'', PBool True)])]"

text \<open>A driver named node1 whose view has a leader of the given name, observed at revision 15.\<close>

definition view_with_leader :: "string \<Rightarrow> cluster" where
  "view_with_leader n =
     \<lparr>cl_initialize = PNone, cl_config = PNone,
      cl_leader = Some \<lparr>lead_index = PStr ''15'', lead_session = PInt 7,
                        lead_member = \<lparr>mem_index = PStr ''12'', mem_name = PStr n,
                                        mem_session = PInt 7, mem_data = PDict []\<rparr>\<rparr>,
      cl_last_leader_operation = 0, cl_members = [], cl_failover = PNone, cl_sync = PNone,
      cl_history = PNone\<rparr>"

definition viewing_driver :: "string \<Rightarrow> sim etcd3" where
  "viewing_driver n =
     (example_driver (PInt 7) [Inr (PDict [(''succeeded'', PBool True)])])
       \<lparr>self_cluster := Some (view_with_leader n)\<rparr>"

text \<open>
  The two scans of the specification, as the gateway sends them (keys and values in
  base64, revisions and leases as strings): a leader key naming nodeZ and no member
  keys, and a leader key naming nodeA with member keys for nodeA and nodeB.
\<close>

definition raw_node :: "string \<Rightarrow> string \<Rightarrow> string \<Rightarrow> pyval" where
  "raw_node k v r =
     PDict [(''key'', case base64_encode example_lib (PStr k) of Inr x \<Rightarrow> x | Inl _ \<Rightarrow> PNone),
            (''mod_revision'', PStr r),
            (''value'', case base64_encode example_lib (PStr v) of Inr x \<Rightarrow> x | Inl _ \<Rightarrow> PNone),
            (''lease'', PStr ''7'')]"

definition scan_of :: "pyval list \<Rightarrow> pyval" where
  "scan_of ns = PDict [(''header'', PDict []), (''kvs'', PList ns)]"

definition decoded :: "string \<Rightarrow> string \<Rightarrow> string \<Rightarrow> pyval" where
  "decoded k v r =
     PDict [(''key'', PStr k), (''mod_revision'', PStr r), (''value'', PStr v),
            (''lease'', PStr ''7'')]"

definition placeholder :: "string \<Rightarrow> member" where
  "placeholder v =
     \<lparr>mem_index = PInt (- 1), mem_name = PStr v, mem_session = PNone, mem_data = PDict []\<rparr>"

definition absent :: pyval where
  "absent = PDict [(''index'', PNone), (''value'', PNone)]"

section \<open>Facts about the taxonomy\<close>

lemma grpc_eval:
  "grpc ''Unknown'' = Some 2" "grpc ''InvalidArgument'' = Some 3"
  "grpc ''DeadlineExceeded'' = Some 4" "grpc ''NotFound'' = Some 5"
  "grpc ''PermissionDenied'' = Some 7" "grpc ''ResourceExhausted'' = Some 8"
  "grpc ''FailedPrecondition'' = Some 9" "grpc ''OutOfRange'' = Some 11"
  "grpc ''Unavailable'' = Some 14" "grpc ''DataLoss'' = Some 15"
  "grpc ''Unauthenticated'' = Some 16"
  by (simp_all add: grpc_def GRPCCode_def)

lemmas class_eval = class_code.simps class_error.simps issubclass.simps grpc_eval

text \<open>A class at depth 2 has no subclasses; the others are unfolded one level.\<close>

lemma get_subclasses_leaf: "depth c = 2 \<Longrightarrow> get_subclasses c = []"
proof -
  assume d: "depth c = 2"
  have "subclasses c = []"
  proof (cases "subclasses c")
    case Nil
    then show ?thesis .
  next
    case (Cons s ss)
    then have "s \<in> set (subclasses c)" by simp
    then have "depth c < depth s" by (rule subclasses_depth)
    with d depth_le_2 [of s] show ?thesis by simp
  qed
  then show ?thesis by (simp add: get_subclasses.simps [of c])
qed

lemma get_subclasses_step:
  "depth c < 2 \<Longrightarrow>
     get_subclasses c = concat (map (\<lambda>s. get_subclasses s @ [s]) (subclasses c))"
  by (rule get_subclasses.simps)

lemma get_subclasses_root:
  "get_subclasses Etcd3ClientError =
     [Unknown, EmptyKey, KeyNotFound, ValueProvided, LeaseProvided, TooManyOps,
      DuplicateKey, MemberBadURLs, RequestTooLarge, UserEmpty, RoleEmpty, AuthFailed,
      InvalidAuthMgmt, InvalidArgument, DeadlineExceeded, LeaseNotFound, MemberNotFound,
      NotFound, LeaseExist, MemberExist, PeerURLExist, MemberNotEnoughStarted,
      MemberNotLearner, MemberLearnerNotReady, TooManyLearners, RootUserNotExist,
      RootRoleNotExist, UserAlreadyExist, UserNotFound, RoleAlreadyExist, RoleNotFound,
      RoleNotGranted, PermissionNotGranted, AuthNotEnabled, NotLeader, BadLeaderTransferee,
      FailedPrecondition, Compacted, FutureRev, LeaseTTLTooLarge, OutOfRange, NoLeader,
      LeaderChanged, NotCapable, Stopped, Timeout, TimeoutDueToLeaderFail,
      TimeoutDueToConnectionLost, Unhealthy, Unavailable, NoSpace, TooManyRequests,
      PermissionDenied, InvalidAuthToken, Corrupt]"
  by (simp add: get_subclasses_step get_subclasses_leaf depth_def subclasses_def class_order_def)

text \<open>In a dictionary comprehension the last item with a key decides its value.\<close>

lemma map_of_dict_set: "map_of (dict_set d k v) = (map_of d)(k \<mapsto> v)"
  by (induction d k v rule: dict_set.induct) auto

lemma map_of_foldl_dict_set:
  "map_of (foldl (\<lambda>d (k, v). dict_set d k v) d xs) k =
     (case map_of (rev xs) k of Some v \<Rightarrow> Some v | None \<Rightarrow> map_of d k)"
  by (induction xs arbitrary: d) (auto simp: map_of_dict_set split: option.splits)

lemma map_of_dict_comp: "map_of (dict_comp xs) k = map_of (rev xs) k"
  by (simp add: dict_comp_def map_of_foldl_dict_set split: option.splits)

lemma errCodeToClientError_eval:
  "errCodeToClientError =
     [(2, Unknown), (3, InvalidArgument), (5, NotFound), (9, FailedPrecondition),
      (11, OutOfRange), (14, Unavailable)]"
  by (simp add: errCodeToClientError_def get_subclasses_root class_eval dict_comp_def)

lemma GRPCcodeToText_eval:
  "GRPCcodeToText =
     [(0, ''OK''), (1, ''Canceled''), (2, ''Unknown''), (3, ''InvalidArgument''),
      (4, ''DeadlineExceeded''), (5, ''NotFound''), (6, ''AlreadyExists''),
      (7, ''PermissionDenied''), (8, ''ResourceExhausted''), (9, ''FailedPrecondition''),
      (10, ''Aborted''), (11, ''OutOfRange''), (12, ''Unimplemented''), (13, ''Internal''),
      (14, ''Unavailable''), (15, ''DataLoss''), (16, ''Unauthenticated'')]"
  by (simp add: GRPCcodeToText_def GRPCCode_def dict_comp_def)

text \<open>
  The classes the code table can select, and \<^verbatim>\<open>Unknown\<close>, have no \<^verbatim>\<open>error\<close>
  attribute.
\<close>

lemma code_classes_no_error:
  "map_of errCodeToClientError n = Some k \<Longrightarrow> class_error k = None"
  by (auto simp: errCodeToClientError_eval class_eval split: if_splits)

lemma Unknown_no_error: "class_error Unknown = None"
  by (simp add: class_eval)

text \<open>
  A message in the message table belongs to the class it selects, and no two classes
  share a message: a class with an \<^verbatim>\<open>error\<close> attribute is found under it.
\<close>

lemma errString_items:
  "map_of errStringToClientError m =
     map_of (rev (concat (map (\<lambda>s. case class_error s of Some e \<Rightarrow> [(e, s)] | None \<Rightarrow> [])
                       (get_subclasses Etcd3ClientError)))) m"
  by (simp add: errStringToClientError_def map_of_dict_comp)

lemma errString_LeaseNotFound:
  "map_of errStringToClientError ''etcdserver: requested lease not found'' = Some LeaseNotFound"
  by (simp add: errString_items get_subclasses_root class_eval)

lemma errString_NoLeader:
  "map_of errStringToClientError ''etcdserver: no leader'' = Some NoLeader"
  by (simp add: errString_items get_subclasses_root class_eval)

lemma errString_unmatched_examples:
  "map_of errStringToClientError ''no such condition'' = None"
  "map_of errStringToClientError ''a precondition failed'' = None"
  by (simp_all add: errString_items get_subclasses_root class_eval)

section \<open>Claims\<close>

subsection \<open>The end of a prefix range\<close>

text \<open>
  Claim C2, as stated: for a key whose last byte is 0xFF, \<^verbatim>\<open>increment_last_byte\<close>
  returns the key with that byte wrapped to zero. It does not: the bytearray refuses the
  value 256 and the call raises ValueError. The key \<^verbatim>\<open>b'a\xff'\<close> shows it.
\<close>

theorem increment_last_byte_max_counterexample:
  "increment_last_byte example_lib (PBytes [97, 255]) = Inl ValueError \<and>
   increment_last_byte example_lib (PBytes [97, 255]) \<noteq> Inr (PBytes [97, 0])"
  by (simp add: increment_last_byte_def to_bytes_def)

text \<open>
  Claim C2, amended: for every key whose bytes are not empty, if the last byte is 0xFF
  the call raises ValueError and returns nothing (there is no wrap and no carry); if the
  last byte is below 0xFF the call returns the key's bytes with the last byte incremented
  by one, as an integer, and every other byte unchanged.
\<close>

theorem increment_last_byte_last:
  assumes "to_bytes L key = Inr b" and "b \<noteq> []"
  shows "(last b = 255 \<longrightarrow> increment_last_byte L key = Inl ValueError) \<and>
         (last b \<noteq> 255 \<longrightarrow>
            (\<exists>r. increment_last_byte L key = Inr (PBytes r) \<and> length r = length b \<and>
                 butlast r = butlast b \<and> uint (last r) = uint (last b) + 1))"
proof -
  from assms(2) have n: "length b \<noteq> 0" by simp
  from assms(2) have idx: "b ! (length b - 1) = last b" by (simp add: last_conv_nth)
  have bound: "uint (last b) < 256"
    using uint_bounded [of "last b"] by simp
  show ?thesis
  proof (intro conjI impI)
    assume "last b = 255"
    then show "increment_last_byte L key = Inl ValueError"
      using assms n idx by (simp add: increment_last_byte_def Let_def)
  next
    assume ne: "last b \<noteq> 255"
    have "uint (last b) \<noteq> 255"
    proof
      assume "uint (last b) = 255"
      then have "last b = word_of_int 255" by (metis word_of_int_uint)
      with ne show False by simp
    qed
    with bound have lt: "uint (last b) + 1 < 256" by simp
    let ?r = "b[length b - 1 := word_of_int (uint (last b) + 1)]"
    have res: "increment_last_byte L key = Inr (PBytes ?r)"
      using assms n idx lt by (simp add: increment_last_byte_def Let_def)
    have len: "length ?r = length b" by simp
    have last_r: "last ?r = word_of_int (uint (last b) + 1)"
      using assms(2) by (simp add: last_conv_nth)
    have "uint (word_of_int (uint (last b) + 1) :: byte) = uint (last b) + 1"
      using lt bound by (simp add: uint_word_ariths)
    with last_r have val: "uint (last ?r) = uint (last b) + 1" by simp
    have but: "butlast ?r = butlast b"
      by (simp add: butlast_list_update)
    from res len but val
    show "\<exists>r. increment_last_byte L key = Inr (PBytes r) \<and> length r = length b \<and>
                butlast r = butlast b \<and> uint (last r) = uint (last b) + 1"
      by blast
  qed
qed

theorem increment_last_byte_last_witness:
  "to_bytes example_lib (PBytes [97, 255]) = Inr [97, 255] \<and>
   increment_last_byte example_lib (PBytes [97, 255]) = Inl ValueError \<and>
   to_bytes example_lib (PStr ''/service/'') = Inr [47, 115, 101, 114, 118, 105, 99, 101, 47] \<and>
   (\<exists>r. increment_last_byte example_lib (PStr ''/service/'') = Inr (PBytes r) \<and>
        length r = length [47, 115, 101, 114, 118, 105, 99, 101, 47 :: byte] \<and>
        butlast r = butlast [47, 115, 101, 114, 118, 105, 99, 101, 47] \<and>
        uint (last r) = uint (last [47, 115, 101, 114, 118, 105, 99, 101, 47 :: byte]) + 1)"
proof -
  have a: "to_bytes example_lib (PBytes [97, 255]) = Inr [97, 255]"
    by (simp add: to_bytes_def)
  have b: "to_bytes example_lib (PStr ''/service/'') = Inr [47, 115, 101, 114, 118, 105, 99, 101, 47]"
    by (simp add: to_bytes_def example_lib_def)
  have "last [97, 255 :: byte] = 255" by simp
  with increment_last_byte_last [OF a]
  have c: "increment_last_byte example_lib (PBytes [97, 255]) = Inl ValueError" by blast
  have "last [47, 115, 101, 114, 118, 105, 99, 101, 47 :: byte] \<noteq> 255" by simp
  with increment_last_byte_last [OF b]
  have d: "\<exists>r. increment_last_byte example_lib (PStr ''/service/'') = Inr (PBytes r) \<and>
        length r = length [47, 115, 101, 114, 118, 105, 99, 101, 47 :: byte] \<and>
        butlast r = butlast [47, 115, 101, 114, 118, 105, 99, 101, 47] \<and>
        uint (last r) = uint (last [47, 115, 101, 114, 118, 105, 99, 101, 47 :: byte]) + 1"
    by blast
  from a b c d show ?thesis by (intro conjI)
qed

subsection \<open>Retryable errors\<close>

text \<open>
  Claim C4: an error of the taxonomy is an instance of the classes the driver gives its
  retry primitive as \<^verbatim>\<open>retry_exceptions\<close> if and only if its category, the status code
  its class carries, is DeadlineExceeded or Unavailable. This holds for every class of
  the hierarchy, the message-refined subclasses included; the root class, which has no
  code, is not retried.
\<close>

theorem retryable_iff_category:
  "isinstance_any (ClientError e) retry_exceptions \<longleftrightarrow>
     class_code (err_class e) = grpc ''DeadlineExceeded'' \<or>
     class_code (err_class e) = grpc ''Unavailable''"
  by (cases "err_class e") (simp_all add: isinstance_any_def retry_exceptions_def class_eval)

subsection \<open>Decoding an error response\<close>

text \<open>
  Claim C3 says that an error response whose message matches no class and whose code
  matches no class produces the \<^verbatim>\<open>Unknown\<close> kind with the message, the code and the
  status, and that a code without a matching message selects the kind of that category.
  The selection is as claimed, but the exception is constructed with \<^verbatim>\<open>error\<close> and
  \<^verbatim>\<open>code\<close> in the wrong order: \<^verbatim>\<open>__init__\<close> takes \<^verbatim>\<open>code\<close> first, the call passes
  \<^verbatim>\<open>error\<close> first. A class selected by code, and \<^verbatim>\<open>Unknown\<close>, has no \<^verbatim>\<open>error\<close>
  attribute, so \<^verbatim>\<open>__init__\<close> calls \<^verbatim>\<open>strip\<close> on the numeric code and the decoder
  raises AttributeError: for every error response whose message is not a fixed message
  of a class and whose code is an integer.
\<close>

theorem raise_for_status_unmatched_message:
  assumes "400 \<le> resp_status r"
    and "utf8_decode L (resp_data r) = Some text"
    and "extract_error L text = (PStr m, PInt n)"
    and "map_of errStringToClientError m = None"
  shows "raise_for_status L r = Inl AttributeError"
proof -
  obtain k where sel: "select_err (PStr m) (PInt n) = Inr k" and k: "class_error k = None"
  proof (cases "map_of errCodeToClientError n")
    case None
    with assms(4) have "select_err (PStr m) (PInt n) = Inr Unknown"
      by (simp add: select_err_def str_dict_get_def int_dict_get_def)
    with Unknown_no_error that show ?thesis by blast
  next
    case (Some k)
    with assms(4) have "select_err (PStr m) (PInt n) = Inr k"
      by (simp add: select_err_def str_dict_get_def int_dict_get_def)
    with code_classes_no_error [OF Some] that show ?thesis by blast
  qed
  from k have "raise_err k (PStr m) (PInt n) (PInt (resp_status r)) = AttributeError"
    by (simp add: raise_err_def Etcd3ClientError_init_def py_strip_def)
  with assms(1-3) sel show ?thesis
    by (simp add: raise_for_status_def)
qed

theorem raise_for_status_unmatched_message_witness:
  "400 \<le> resp_status (example_response 500 ''{\"error\": \"no such condition\", \"code\": 2}'') \<and>
   utf8_decode example_lib
       (resp_data (example_response 500 ''{\"error\": \"no such condition\", \"code\": 2}''))
     = Some ''{\"error\": \"no such condition\", \"code\": 2}'' \<and>
   extract_error example_lib ''{\"error\": \"no such condition\", \"code\": 2}''
     = (PStr ''no such condition'', PInt 2) \<and>
   map_of errStringToClientError ''no such condition'' = None \<and>
   raise_for_status example_lib
       (example_response 500 ''{\"error\": \"no such condition\", \"code\": 2}'')
     = Inl AttributeError"
proof -
  let ?body = "''{\"error\": \"no such condition\", \"code\": 2}''"
  have a: "400 \<le> resp_status (example_response 500 ?body)"
    by (simp add: example_response_def)
  have b: "utf8_decode example_lib (resp_data (example_response 500 ?body)) = Some ?body"
    by (simp add: example_response_def example_lib_def char_of_eq_iff)
  have c: "extract_error example_lib ?body = (PStr ''no such condition'', PInt 2)"
    by (simp add: extract_error_def example_lib_def example_json_def py_get_def)
  have d: "map_of errStringToClientError ''no such condition'' = None"
    by (rule errString_unmatched_examples)
  from raise_for_status_unmatched_message [OF a b c d] a b c d
  show ?thesis by (intro conjI)
qed

subsection \<open>Version negotiation\<close>

text \<open>The comparison of a version with at least two components against (3, 3) and (3, 4).\<close>

lemma tuple_less_Nil: "tuple_less xs [] = False"
  by (cases xs) simp_all

lemma select_prefix_semver:
  "select_prefix (major # minor # rest) =
     (if major < 3 \<or> (major = 3 \<and> minor < 3) then ''/v3alpha''
      else if major = 3 \<and> minor = 3 then ''/v3beta''
      else ''/v3'')"
  by (auto simp: select_prefix_def tuple_less_Nil)

lemma example_versions:
  "ints_of (split_on (CHR ''.'') ''3.2.9'') = Inr [3, 2, 9]"
  "ints_of (split_on (CHR ''.'') ''3.3.5'') = Inr [3, 3, 5]"
  "ints_of (split_on (CHR ''.'') ''3.5.0'') = Inr [3, 5, 0]"
  by (simp_all add: py_int_def strip_def is_space_def parse_unsigned_def is_digit_def
        digit_val_def)

text \<open>
  Claim C5: when the version is negotiated (the cached prefix is not \<^verbatim>\<open>/v3\<close>) and the
  server reports the cluster version \<open>v\<close>, a dotted version whose components read as the
  integers \<open>major\<close>, \<open>minor\<close> and any further ones, the prefix becomes \<^verbatim>\<open>/v3alpha\<close> if
  the version is below 3.3, \<^verbatim>\<open>/v3beta\<close> if it is 3.3.x and \<^verbatim>\<open>/v3\<close> if it is 3.4 or
  above. The versions 3.2.9, 3.3.5 and 3.5.0 read as [3, 2, 9], [3, 3, 5] and [3, 5, 0],
  and so give the alpha, the beta and the stable prefix.
\<close>

theorem ensure_version_prefix_selects:
  assumes "version_prefix c \<noteq> ''/v3''"
    and "prepare_request E c PNone = Inr kwargs"
    and "urlopen E MGET (base_uri c @ ''/version'') kwargs (transport c) = (Inr response, w)"
    and "handle_server_response (lib E) response = Inr body"
    and "py_getitem body ''etcdcluster'' = Inr (PStr v)"
    and "ints_of (split_on (CHR ''.'') v) = Inr (major # minor # rest)"
  shows "ensure_version_prefix E c =
           (Inr (), c\<lparr>transport := w,
                      version_prefix :=
                        (if major < 3 \<or> (major = 3 \<and> minor < 3) then ''/v3alpha''
                         else if major = 3 \<and> minor = 3 then ''/v3beta''
                         else ''/v3'')\<rparr>) \<and>
         ints_of (split_on (CHR ''.'') ''3.2.9'') = Inr [3, 2, 9] \<and>
         ints_of (split_on (CHR ''.'') ''3.3.5'') = Inr [3, 3, 5] \<and>
         ints_of (split_on (CHR ''.'') ''3.5.0'') = Inr [3, 5, 0]"
proof -
  from assms(4-6) have "cluster_version_of (lib E) response = Inr (major # minor # rest)"
    by (simp add: cluster_version_of_def py_split_def)
  with assms(1-3) have "ensure_version_prefix E c =
      (Inr (), c\<lparr>transport := w, version_prefix := select_prefix (major # minor # rest)\<rparr>)"
    by (simp add: ensure_version_prefix_def)
  then show ?thesis
    by (simp only: select_prefix_semver example_versions simp_thms)
qed

text \<open>
  The three versions of the claim, each reported to a client whose prefix is
  \<^verbatim>\<open>/v3beta\<close>.
\<close>

lemma example_handle_version:
  "handle_server_response example_lib (example_response 200 ''{\"etcdcluster\": \"3.2.9\"}'')
     = Inr (PDict [(''etcdcluster'', PStr ''3.2.9'')])"
  "handle_server_response example_lib (example_response 200 ''{\"etcdcluster\": \"3.3.5\"}'')
     = Inr (PDict [(''etcdcluster'', PStr ''3.3.5'')])"
  "handle_server_response example_lib (example_response 200 ''{\"etcdcluster\": \"3.5.0\"}'')
     = Inr (PDict [(''etcdcluster'', PStr ''3.5.0'')])"
  by (simp_all add: handle_server_response_def raise_for_status_def example_response_def
        example_lib_def example_json_def char_of_eq_iff)

lemma example_prepare_request:
  "prepare_request example_env c PNone =
     Inr (PDict [(''headers'', PDict []), (''timeout'', PInt 2),
                 (''preload_content'', PBool False), (''body'', PStr [])])"
  by (simp add: prepare_request_def example_env_def)

theorem ensure_version_prefix_selects_witness:
  "version_prefix (snd (ensure_version_prefix example_env
      (version_client ''{\"etcdcluster\": \"3.2.9\"}''))) = ''/v3alpha'' \<and>
   version_prefix (snd (ensure_version_prefix example_env
      (version_client ''{\"etcdcluster\": \"3.3.5\"}''))) = ''/v3beta'' \<and>
   version_prefix (snd (ensure_version_prefix example_env
      (version_client ''{\"etcdcluster\": \"3.5.0\"}''))) = ''/v3'' \<and>
   sim_requests (transport (snd (ensure_version_prefix example_env
      (version_client ''{\"etcdcluster\": \"3.5.0\"}'')))) =
     [(''GET'', ''http://127.0.0.1:2379/version'',
       PDict [(''headers'', PDict []), (''timeout'', PInt 2),
              (''preload_content'', PBool False), (''body'', PStr [])])]"
proof -
  let ?kw = "PDict [(''headers'', PDict []), (''timeout'', PInt 2),
                    (''preload_content'', PBool False), (''body'', PStr [])]"
  have ne: "\<And>b. version_prefix (version_client b) \<noteq> ''/v3''"
    by (simp add: version_client_def)
  have url: "\<And>b. urlopen example_env MGET (base_uri (version_client b) @ ''/version'') ?kw
               (transport (version_client b)) =
             (Inr (example_response 200 b),
              (transport (version_client b))
                \<lparr>sim_requests := [(''GET'', ''http://127.0.0.1:2379/version'', ?kw)],
                 sim_clock := 101\<rparr>)"
    by (simp add: example_env_def example_urlopen_def version_client_def MGET_def)
  have lib: "lib example_env = example_lib" by (simp add: example_env_def)
  have get: "\<And>s. py_getitem (PDict [(''etcdcluster'', PStr s)]) ''etcdcluster'' = Inr (PStr s)"
    by (simp add: py_getitem_def)
  note th = ensure_version_prefix_selects [OF ne example_prepare_request url, unfolded lib,
      OF _ get]
  from th [OF example_handle_version(1) example_versions(1)]
       th [OF example_handle_version(2) example_versions(2)]
       th [OF example_handle_version(3) example_versions(3)]
  show ?thesis by simp
qed

subsection \<open>Conditional and plain writes\<close>

text \<open>
  The fields of a put whose key and value encode to \<open>k\<close> and \<open>v\<close>: the lease is a
  field only when it is true.
\<close>

lemma put_fields_encoded:
  assumes "base64_encode L key = Inr k" and "base64_encode L val = Inr v"
  shows "put_fields L key val lease =
           Inr ([(''key'', k), (''value'', v)] @ (if truthy lease then [(''lease'', lease)] else []))"
  using assms by (simp add: put_fields_def)

text \<open>
  Claim C1: for a put whose key and value encode to \<open>k\<close> and \<open>v\<close>, with fields
  \<open>flds\<close>. If \<^verbatim>\<open>create_revision\<close> is given, the client sends exactly one request: a POST
  to \<^verbatim>\<open>/kv/txn\<close> under the version prefix whose \<^verbatim>\<open>compare\<close> list has the single
  comparison of the key's CREATE revision with the given value and whose \<^verbatim>\<open>success\<close>
  list has the single \<^verbatim>\<open>request_put\<close> of the fields; the call returns
  \<^verbatim>\<open>.get('succeeded')\<close> of the answer, and raises what the request raises. If neither
  revision is given, it sends a POST to \<^verbatim>\<open>/kv/put\<close> with the fields and returns the
  answer as it is.
\<close>

theorem put_create_revision:
  assumes "base64_encode (lib E) key = Inr k" and "base64_encode (lib E) val = Inr v"
    and "flds = [(''key'', k), (''value'', v)] @ (if truthy lease then [(''lease'', lease)] else [])"
  shows "(create_revision \<noteq> PNone \<longrightarrow>
            put E key val lease create_revision mod_revision c =
              (case api_execute E (version_prefix c @ ''/kv/txn'') ''POST''
                      (PDict [(''compare'',
                                 PList [PDict [(''target'', PStr ''CREATE''),
                                               (''create_revision'', create_revision),
                                               (''key'', k)]]),
                              (''success'', PList [PDict [(''request_put'', PDict flds)]])]) c of
                 (Inl x, c1) \<Rightarrow> (Inl x, c1)
               | (Inr answer, c1) \<Rightarrow> (py_get answer ''succeeded'' PNone, c1))) \<and>
         put E key val lease PNone PNone c =
           api_execute E (version_prefix c @ ''/kv/put'') ''POST'' (PDict flds) c"
proof -
  have f: "put_fields (lib E) key val lease = Inr flds"
    using assms by (simp add: put_fields_encoded)
  have g: "py_getitem (PDict flds) ''key'' = Inr k"
    using assms(3) by (simp add: py_getitem_def)
  show ?thesis
    using f g
    by (auto simp: put_def txn_def call_rpc_def MPOST_def split: prod.splits sum.splits)
qed

theorem put_create_revision_witness:
  "base64_encode (lib example_env) (PStr ''/service/batman/leader'')
     = Inr (PStr ''L3NlcnZpY2UvYmF0bWFuL2xlYWRlcg=='') \<and>
   base64_encode (lib example_env) (PStr ''node1'') = Inr (PStr ''bm9kZTE='') \<and>
   put example_env (PStr ''/service/batman/leader'') (PStr ''node1'') (PInt 7) (PInt 0) PNone
       (example_client [Inr (PDict [(''succeeded'', PBool True)])]) =
     (Inr (PBool True),
      (example_client [])\<lparr>transport := (transport (example_client []))
         \<lparr>sim_requests :=
            [(''POST'', ''/v3beta/kv/txn'',
              PDict [(''compare'',
                        PList [PDict [(''target'', PStr ''CREATE''), (''create_revision'', PInt 0),
                                      (''key'', PStr ''L3NlcnZpY2UvYmF0bWFuL2xlYWRlcg=='')]]),
                     (''success'',
                        PList [PDict [(''request_put'',
                                 PDict [(''key'', PStr ''L3NlcnZpY2UvYmF0bWFuL2xlYWRlcg==''),
                                        (''value'', PStr ''bm9kZTE=''),
                                        (''lease'', PInt 7)])]])])],
          sim_clock := 101\<rparr>\<rparr>)"
proof -
  have a: "base64_encode (lib example_env) (PStr ''/service/batman/leader'')
             = Inr (PStr ''L3NlcnZpY2UvYmF0bWFuL2xlYWRlcg=='')"
    by (simp add: base64_encode_def to_bytes_def example_env_def example_lib_def b64_char_def
          char_of_eq_iff)
  have b: "base64_encode (lib example_env) (PStr ''node1'') = Inr (PStr ''bm9kZTE='')"
    by (simp add: base64_encode_def to_bytes_def example_env_def example_lib_def b64_char_def
          char_of_eq_iff)
  have c: "PInt 0 \<noteq> PNone" by simp
  from put_create_revision [OF a b refl, where lease = "PInt 7" and create_revision = "PInt 0"
         and mod_revision = PNone
         and c = "example_client [Inr (PDict [(''succeeded'', PBool True)])]"] c
  have "put example_env (PStr ''/service/batman/leader'') (PStr ''node1'') (PInt 7) (PInt 0) PNone
          (example_client [Inr (PDict [(''succeeded'', PBool True)])]) =
        (case api_execute example_env
                (version_prefix (example_client [Inr (PDict [(''succeeded'', PBool True)])])
                   @ ''/kv/txn'') ''POST''
                (PDict [(''compare'',
                           PList [PDict [(''target'', PStr ''CREATE''), (''create_revision'', PInt 0),
                                         (''key'', PStr ''L3NlcnZpY2UvYmF0bWFuL2xlYWRlcg=='')]]),
                        (''success'',
                           PList [PDict [(''request_put'',
                                    PDict ([(''key'', PStr ''L3NlcnZpY2UvYmF0bWFuL2xlYWRlcg==''),
                                            (''value'', PStr ''bm9kZTE='')] @
                                           (if truthy (PInt 7) then [(''lease'', PInt 7)] else []))
                                         )]])])
                (example_client [Inr (PDict [(''succeeded'', PBool True)])]) of
           (Inl x, c1) \<Rightarrow> (Inl x, c1)
         | (Inr answer, c1) \<Rightarrow> (py_get answer ''succeeded'' PNone, c1))"
    by blast
  then show ?thesis
    using a b
    by (simp add: example_env_def example_api_execute_def example_client_def py_get_def)
qed

text \<open>
  Claim C10: when both revisions are given, the put is the put with
  \<^verbatim>\<open>create_revision\<close> alone: the transaction is the same whatever \<^verbatim>\<open>mod_revision\<close> is,
  and its one comparison is the CREATE comparison, which has no \<^verbatim>\<open>mod_revision\<close>
  entry.
\<close>

theorem put_create_revision_precedence:
  assumes "create_revision \<noteq> PNone" and "mod_revision \<noteq> PNone"
  shows "put E key val lease create_revision mod_revision c =
           put E key val lease create_revision PNone c \<and>
         (\<forall>flds k. put_fields (lib E) key val lease = Inr flds \<and>
                   py_getitem (PDict flds) ''key'' = Inr k \<longrightarrow>
            put E key val lease create_revision mod_revision c =
              txn E [(''target'', PStr ''CREATE''), (''create_revision'', create_revision),
                     (''key'', k)] ''request_put'' (PDict flds) c)"
  using assms by (simp add: put_def)

theorem put_create_revision_precedence_witness:
  "PInt 0 \<noteq> PNone \<and> PInt 5 \<noteq> PNone \<and>
   put example_env (PStr ''/service/batman/leader'') (PStr ''node1'') PNone (PInt 0) (PInt 5)
       (example_client [Inr (PDict [])]) =
   put example_env (PStr ''/service/batman/leader'') (PStr ''node1'') PNone (PInt 0) PNone
       (example_client [Inr (PDict [])]) \<and>
   sim_requests (transport (snd
     (put example_env (PStr ''/service/batman/leader'') (PStr ''node1'') PNone (PInt 0) (PInt 5)
        (example_client [Inr (PDict [])])))) =
     [(''POST'', ''/v3beta/kv/txn'',
       PDict [(''compare'',
                 PList [PDict [(''target'', PStr ''CREATE''), (''create_revision'', PInt 0),
                               (''key'', PStr ''L3NlcnZpY2UvYmF0bWFuL2xlYWRlcg=='')]]),
              (''success'',
                 PList [PDict [(''request_put'',
                          PDict [(''key'', PStr ''L3NlcnZpY2UvYmF0bWFuL2xlYWRlcg==''),
                                 (''value'', PStr ''bm9kZTE='')])]])])]"
proof -
  have a: "PInt 0 \<noteq> PNone" and b: "PInt 5 \<noteq> PNone" by simp_all
  have f: "put_fields (lib example_env) (PStr ''/service/batman/leader'') (PStr ''node1'') PNone =
             Inr [(''key'', PStr ''L3NlcnZpY2UvYmF0bWFuL2xlYWRlcg==''),
                  (''value'', PStr ''bm9kZTE='')]"
    by (simp add: put_fields_def base64_encode_def to_bytes_def example_env_def example_lib_def
          b64_char_def char_of_eq_iff)
  have g: "py_getitem (PDict [(''key'', PStr ''L3NlcnZpY2UvYmF0bWFuL2xlYWRlcg==''),
                              (''value'', PStr ''bm9kZTE='')]) ''key''
             = Inr (PStr ''L3NlcnZpY2UvYmF0bWFuL2xlYWRlcg=='')"
    by (simp add: py_getitem_def)
  note th = put_create_revision_precedence [OF a b, where E = example_env
      and key = "PStr ''/service/batman/leader''" and val = "PStr ''node1''" and lease = PNone
      and c = "example_client [Inr (PDict [])]"]
  from th have e1: "put example_env (PStr ''/service/batman/leader'') (PStr ''node1'') PNone
       (PInt 0) (PInt 5) (example_client [Inr (PDict [])]) =
     put example_env (PStr ''/service/batman/leader'') (PStr ''node1'') PNone (PInt 0) PNone
       (example_client [Inr (PDict [])])"
    by blast
  from th f g have e2: "put example_env (PStr ''/service/batman/leader'') (PStr ''node1'') PNone
       (PInt 0) (PInt 5) (example_client [Inr (PDict [])]) =
     txn example_env [(''target'', PStr ''CREATE''), (''create_revision'', PInt 0),
                      (''key'', PStr ''L3NlcnZpY2UvYmF0bWFuL2xlYWRlcg=='')] ''request_put''
       (PDict [(''key'', PStr ''L3NlcnZpY2UvYmF0bWFuL2xlYWRlcg==''),
               (''value'', PStr ''bm9kZTE='')]) (example_client [Inr (PDict [])])"
    by blast
  have e3: "sim_requests (transport (snd
     (txn example_env [(''target'', PStr ''CREATE''), (''create_revision'', PInt 0),
                      (''key'', PStr ''L3NlcnZpY2UvYmF0bWFuL2xlYWRlcg=='')] ''request_put''
       (PDict [(''key'', PStr ''L3NlcnZpY2UvYmF0bWFuL2xlYWRlcg==''),
               (''value'', PStr ''bm9kZTE='')]) (example_client [Inr (PDict [])])))) =
     [(''POST'', ''/v3beta/kv/txn'',
       PDict [(''compare'',
                 PList [PDict [(''target'', PStr ''CREATE''), (''create_revision'', PInt 0),
                               (''key'', PStr ''L3NlcnZpY2UvYmF0bWFuL2xlYWRlcg=='')]]),
              (''success'',
                 PList [PDict [(''request_put'',
                          PDict [(''key'', PStr ''L3NlcnZpY2UvYmF0bWFuL2xlYWRlcg==''),
                                 (''value'', PStr ''bm9kZTE='')])]])])]"
    by (simp add: txn_def call_rpc_def MPOST_def example_env_def example_api_execute_def
          example_client_def py_get_def)
  from a b e1 e3 show ?thesis
    by (simp only: e2 [symmetric] simp_thms)
qed

subsection \<open>Refreshing the lease\<close>

text \<open>A method of the client changes nothing of the driver but the client.\<close>

lemma on_client_frame:
  "on_client m d = (r, d1) \<Longrightarrow>
     self_lease d1 = self_lease d \<and> self_last_lease_refresh d1 = self_last_lease_refresh d \<and>
     self_loop_wait d1 = self_loop_wait d \<and> self_ttl d1 = self_ttl d \<and>
     self_name d1 = self_name d \<and> self_leader_path d1 = self_leader_path d"
  by (auto simp: on_client_def split: prod.splits)

text \<open>
  Claim C6, as stated: a refresh that is not a no-op records the refresh timestamp
  regardless of outcome. It does not when the keepalive (or the grant) raises: the
  exception leaves \<^verbatim>\<open>_do_refresh_lease\<close> before the timestamp is assigned. Here the
  driver holds lease 7, last refreshed at time 0 with a loop wait of 10, the clock reads
  100 and no server answers the keepalive: the call raises, and the timestamp is still 0
  while the clock reads 101.
\<close>

theorem do_refresh_lease_timestamp_counterexample:
  "truthy (self_lease (example_driver (PInt 7) [])) \<and>
   \<not> time_time example_env (world (example_driver (PInt 7) []))
       < self_last_lease_refresh (example_driver (PInt 7) [])
         + self_loop_wait (example_driver (PInt 7) []) \<and>
   fst (do_refresh_lease example_env (example_driver (PInt 7) []))
     = Inl (ExternalError ''no server'') \<and>
   self_last_lease_refresh (snd (do_refresh_lease example_env (example_driver (PInt 7) []))) = 0 \<and>
   time_time example_env (world (snd (do_refresh_lease example_env (example_driver (PInt 7) []))))
     = 101"
  by (simp add: do_refresh_lease_def keepalive_step_def on_client_def lease_keepalive_def
        call_rpc_def example_env_def example_api_execute_def example_driver_def
        example_client_def world_def)

text \<open>
  Claim C6, amended. If a lease exists and the last refresh is less than the loop wait
  ago, the refresh is a no-op: it returns false and changes nothing. Otherwise:
  \<^item> if a lease exists, a keepalive is sent for it; if the keepalive raises, the
    refresh raises the same exception, and lease and timestamp stay as they were; if it
    reports a TTL, the refresh returns false, the lease stays and the timestamp is set to
    the time after the keepalive;
  \<^item> if the keepalive reports no TTL the lease is cleared, and then, as when there was
    no lease, a lease is requested with the configured TTL; if the grant raises, the
    refresh raises the same exception, and the timestamp stays as it was; if it returns a
    lease, the refresh stores it, sets the timestamp to the time after the grant and
    returns true.
  So the timestamp is recorded exactly when the call returns, and the call returns true
  exactly when it has stored a new lease.
\<close>

theorem do_refresh_lease_outcomes:
  "(truthy (self_lease d) \<and>
      time_time E (world d) < self_last_lease_refresh d + self_loop_wait d \<longrightarrow>
        do_refresh_lease E d = (Inr False, d)) \<and>
   (\<not> (truthy (self_lease d) \<and>
        time_time E (world d) < self_last_lease_refresh d + self_loop_wait d) \<longrightarrow>
      (\<forall>x d1. truthy (self_lease d) \<and>
               on_client (lease_keepalive E (self_lease d)) d = (Inl x, d1) \<longrightarrow>
         do_refresh_lease E d = (Inl x, d1) \<and> self_lease d1 = self_lease d \<and>
         self_last_lease_refresh d1 = self_last_lease_refresh d) \<and>
      (\<forall>t d1. truthy (self_lease d) \<and>
               on_client (lease_keepalive E (self_lease d)) d = (Inr t, d1) \<and> truthy t \<longrightarrow>
         do_refresh_lease E d =
           (Inr False, d1\<lparr>self_last_lease_refresh := time_time E (world d1)\<rparr>) \<and>
         self_lease d1 = self_lease d) \<and>
      (\<forall>d0. (\<not> truthy (self_lease d) \<and> d0 = d) \<or>
             (\<exists>t d1. truthy (self_lease d) \<and>
                     on_client (lease_keepalive E (self_lease d)) d = (Inr t, d1) \<and>
                     \<not> truthy t \<and> d0 = d1\<lparr>self_lease := PNone\<rparr>) \<longrightarrow>
         (\<forall>x d2. on_client (lease_grant E (self_ttl d)) d0 = (Inl x, d2) \<longrightarrow>
            do_refresh_lease E d = (Inl x, d2) \<and> \<not> truthy (self_lease d2) \<and>
            self_last_lease_refresh d2 = self_last_lease_refresh d) \<and>
         (\<forall>l d2. on_client (lease_grant E (self_ttl d)) d0 = (Inr l, d2) \<longrightarrow>
            do_refresh_lease E d =
              (Inr True, d2\<lparr>self_lease := l,
                            self_last_lease_refresh := time_time E (world d2)\<rparr>))))"
proof (intro conjI impI allI)
  assume "truthy (self_lease d) \<and>
    time_time E (world d) < self_last_lease_refresh d + self_loop_wait d"
  then show "do_refresh_lease E d = (Inr False, d)"
    by (simp add: do_refresh_lease_def)
next
  fix x d1
  assume stale: "\<not> (truthy (self_lease d) \<and>
      time_time E (world d) < self_last_lease_refresh d + self_loop_wait d)"
    and k: "truthy (self_lease d) \<and>
      on_client (lease_keepalive E (self_lease d)) d = (Inl x, d1)"
  then show "do_refresh_lease E d = (Inl x, d1)"
    by (simp add: do_refresh_lease_def keepalive_step_def)
  from k on_client_frame [of "lease_keepalive E (self_lease d)" d "Inl x" d1]
  show "self_lease d1 = self_lease d"
    and "self_last_lease_refresh d1 = self_last_lease_refresh d"
    by simp_all
next
  fix t d1
  assume stale: "\<not> (truthy (self_lease d) \<and>
      time_time E (world d) < self_last_lease_refresh d + self_loop_wait d)"
    and k: "truthy (self_lease d) \<and>
      on_client (lease_keepalive E (self_lease d)) d = (Inr t, d1) \<and> truthy t"
  from k on_client_frame [of "lease_keepalive E (self_lease d)" d "Inr t" d1]
  show l: "self_lease d1 = self_lease d" by simp
  with stale k
  show "do_refresh_lease E d =
      (Inr False, d1\<lparr>self_last_lease_refresh := time_time E (world d1)\<rparr>)"
    by (simp add: do_refresh_lease_def keepalive_step_def grant_step_def)
next
  fix d0 x d2
  assume stale: "\<not> (truthy (self_lease d) \<and>
      time_time E (world d) < self_last_lease_refresh d + self_loop_wait d)"
    and d0: "(\<not> truthy (self_lease d) \<and> d0 = d) \<or>
      (\<exists>t d1. truthy (self_lease d) \<and>
         on_client (lease_keepalive E (self_lease d)) d = (Inr t, d1) \<and>
         \<not> truthy t \<and> d0 = d1\<lparr>self_lease := PNone\<rparr>)"
    and g: "on_client (lease_grant E (self_ttl d)) d0 = (Inl x, d2)"
  from d0 have step: "keepalive_step E d = (Inr (), d0)" and f: "\<not> truthy (self_lease d0)"
    and ttl: "self_ttl d0 = self_ttl d"
    and ts: "self_last_lease_refresh d0 = self_last_lease_refresh d"
    by (auto simp: keepalive_step_def dest: on_client_frame)
  from stale step f ttl g
  show "do_refresh_lease E d = (Inl x, d2)"
    by (simp add: do_refresh_lease_def grant_step_def)
  from g f ts on_client_frame [of "lease_grant E (self_ttl d)" d0 "Inl x" d2]
  show "\<not> truthy (self_lease d2)"
    and "self_last_lease_refresh d2 = self_last_lease_refresh d"
    by simp_all
next
  fix d0 l d2
  assume stale: "\<not> (truthy (self_lease d) \<and>
      time_time E (world d) < self_last_lease_refresh d + self_loop_wait d)"
    and d0: "(\<not> truthy (self_lease d) \<and> d0 = d) \<or>
      (\<exists>t d1. truthy (self_lease d) \<and>
         on_client (lease_keepalive E (self_lease d)) d = (Inr t, d1) \<and>
         \<not> truthy t \<and> d0 = d1\<lparr>self_lease := PNone\<rparr>)"
    and g: "on_client (lease_grant E (self_ttl d)) d0 = (Inr l, d2)"
  from d0 have step: "keepalive_step E d = (Inr (), d0)" and f: "\<not> truthy (self_lease d0)"
    and ttl: "self_ttl d0 = self_ttl d"
    by (auto simp: keepalive_step_def dest: on_client_frame)
  from stale step f ttl g
  show "do_refresh_lease E d =
      (Inr True, d2\<lparr>self_lease := l, self_last_lease_refresh := time_time E (world d2)\<rparr>)"
    by (simp add: do_refresh_lease_def grant_step_def world_def)
qed

text \<open>
  Two runs: a driver without a lease is granted lease 8 and returns true with the
  timestamp set; a driver that holds lease 7, refreshed 5 seconds ago, does nothing.
\<close>

theorem do_refresh_lease_outcomes_witness:
  "\<not> truthy (self_lease (example_driver PNone [Inr (PDict [(''ID'', PInt 8)])])) \<and>
   fst (do_refresh_lease example_env (example_driver PNone [Inr (PDict [(''ID'', PInt 8)])]))
     = Inr True \<and>
   self_lease (snd (do_refresh_lease example_env
      (example_driver PNone [Inr (PDict [(''ID'', PInt 8)])]))) = PInt 8 \<and>
   self_last_lease_refresh (snd (do_refresh_lease example_env
      (example_driver PNone [Inr (PDict [(''ID'', PInt 8)])]))) = 101 \<and>
   sim_requests (world (snd (do_refresh_lease example_env
      (example_driver PNone [Inr (PDict [(''ID'', PInt 8)])]))))
     = [(''POST'', ''/v3beta/lease/grant'', PDict [(''TTL'', PInt 30)])] \<and>
   do_refresh_lease example_env ((example_driver (PInt 7) [])\<lparr>self_last_lease_refresh := 95\<rparr>)
     = (Inr False, (example_driver (PInt 7) [])\<lparr>self_last_lease_refresh := 95\<rparr>)"
proof -
  let ?d = "example_driver PNone [Inr (PDict [(''ID'', PInt 8)])]"
  let ?g = "on_client (lease_grant example_env (self_ttl ?d)) ?d"
  let ?f = "(example_driver (PInt 7) [])\<lparr>self_last_lease_refresh := 95\<rparr>"
  have no: "\<not> truthy (self_lease ?d)" by (simp add: example_driver_def)
  have g: "?g = (Inr (PInt 8), snd ?g)"
    by (simp add: on_client_def lease_grant_def call_rpc_def example_env_def
          example_api_execute_def example_driver_def example_client_def py_getitem_def)
  have w: "sim_requests (world (snd ?g)) = [(''POST'', ''/v3beta/lease/grant'', PDict [(''TTL'', PInt 30)])]"
    and t: "time_time example_env (world (snd ?g)) = 101"
    by (simp_all add: on_client_def lease_grant_def call_rpc_def example_env_def MPOST_def
          example_api_execute_def example_driver_def example_client_def py_getitem_def world_def)
  from do_refresh_lease_outcomes [of ?d example_env] no g
  have r: "do_refresh_lease example_env ?d =
      (Inr True, (snd ?g)\<lparr>self_lease := PInt 8,
                           self_last_lease_refresh := time_time example_env (world (snd ?g))\<rparr>)"
    by blast
  have fresh: "truthy (self_lease ?f) \<and>
      time_time example_env (world ?f) < self_last_lease_refresh ?f + self_loop_wait ?f"
    by (simp add: example_driver_def example_env_def example_client_def world_def)
  with do_refresh_lease_outcomes [of ?f example_env]
  have n: "do_refresh_lease example_env ?f = (Inr False, ?f)" by blast
  from no w t show ?thesis
    by (simp add: r n world_def)
qed

subsection \<open>Acquiring the leader key\<close>

text \<open>
  The retry primitive passes on a result, and an exception it does not retry, after one
  call.
\<close>

lemma retry_loop_result: "f s = (Inr v, s1) \<Longrightarrow> retry_loop n f s = (Inr v, s1)"
  by (cases n) simp_all

lemma retry_loop_not_retried:
  "f s = (Inl e, s1) \<Longrightarrow> \<not> isinstance_any e retry_exceptions \<Longrightarrow>
     retry_loop n f s = (Inl e, s1)"
  by (cases n) simp_all

lemma LeaseNotFound_not_retried:
  "issubclass (err_class e) LeaseNotFound \<Longrightarrow>
     \<not> isinstance_any (ClientError e) retry_exceptions"
  by (cases "err_class e") (simp_all add: isinstance_any_def retry_exceptions_def class_eval)

text \<open>
  Claim C7: when the CAS put of \<^verbatim>\<open>_do_attempt_to_acquire_leader\<close> (the put of the
  leader key with create-revision 0, under the retry primitive) raises an instance of
  \<^verbatim>\<open>LeaseNotFound\<close>, the lease id is set to \<^verbatim>\<open>None\<close> at once, \<^verbatim>\<open>refresh_lease\<close> is
  called once on that state, and the CAS put is made once more, with the lease the
  refresh has left; what this second put returns or raises, a second
  \<^verbatim>\<open>LeaseNotFound\<close> included, is the outcome, so there is no third put. (If the refresh
  itself raises, that exception is the outcome.) A put that returns, whatever the value
  of its succeeded flag, makes the operation return that value: a false flag is a
  result, not an exception. \<^verbatim>\<open>attempt_to_acquire_leader\<close> is this operation when a
  lease is held or the key is to be permanent.
\<close>

theorem do_attempt_lease_not_found:
  fixes E :: "'w env"
  assumes "cas_put E permanent d = (Inl (ClientError e), d1)"
    and "issubclass (err_class e) LeaseNotFound"
  shows "do_attempt_to_acquire_leader E permanent d =
           (case refresh_lease E (d1\<lparr>self_lease := PNone\<rparr>) of
              (Inl x, d3) \<Rightarrow> (Inl x, d3)
            | (Inr granted, d3) \<Rightarrow> cas_put E permanent d3) \<and>
         (\<forall>(d0 :: 'w etcd3) flag d2. cas_put E permanent d0 = (Inr flag, d2) \<longrightarrow>
            do_attempt_to_acquire_leader E permanent d0 = (Inr flag, d2)) \<and>
         (\<forall>d0 :: 'w etcd3. truthy (self_lease d0) \<or> permanent \<longrightarrow>
            attempt_to_acquire_leader E permanent d0 =
              do_attempt_to_acquire_leader E permanent d0)"
proof (intro conjI allI impI)
  from assms(2) have "isinstance_any (ClientError e) [LeaseNotFound]"
    by (simp add: isinstance_any_def)
  with assms(1)
  show "do_attempt_to_acquire_leader E permanent d =
          (case refresh_lease E (d1\<lparr>self_lease := PNone\<rparr>) of
             (Inl x, d3) \<Rightarrow> (Inl x, d3)
           | (Inr granted, d3) \<Rightarrow> cas_put E permanent d3)"
    by (simp add: do_attempt_to_acquire_leader_def split: prod.splits sum.splits)
next
  fix d0 :: "'w etcd3" and flag d2
  assume "cas_put E permanent d0 = (Inr flag, d2)"
  then show "do_attempt_to_acquire_leader E permanent d0 = (Inr flag, d2)"
    by (simp add: do_attempt_to_acquire_leader_def)
next
  fix d0 :: "'w etcd3"
  assume "truthy (self_lease d0) \<or> permanent"
  then show "attempt_to_acquire_leader E permanent d0 =
      do_attempt_to_acquire_leader E permanent d0"
    by (auto simp: attempt_to_acquire_leader_def)
qed

text \<open>
  A run: the driver holds lease 7; the servers answer the put with ``requested lease
  not found'', the grant with lease 8 and the second put with success. The operation
  returns true, holds lease 8, and has sent exactly a put, a grant and a put.
\<close>

lemma example_put_fields:
  "put_fields example_lib (PStr ''/service/batman/leader'') (PStr ''node1'') l =
     Inr ([(''key'', PStr ''L3NlcnZpY2UvYmF0bWFuL2xlYWRlcg==''), (''value'', PStr ''bm9kZTE='')]
          @ (if truthy l then [(''lease'', l)] else []))"
  by (simp add: put_fields_def base64_encode_def to_bytes_def example_lib_def b64_char_def
        char_of_eq_iff)

lemmas example_run =
  cas_put_def retry_def on_client_def put_def txn_def call_rpc_def MPOST_def
  example_put_fields example_env_def example_api_execute_def isinstance_any_def
  retry_exceptions_def class_eval refresh_lease_def do_refresh_lease_def keepalive_step_def
  grant_step_def lease_grant_def lease_keepalive_def py_getitem_def py_get_def world_def
  example_driver_def example_client_def numeral_2_eq_2

theorem do_attempt_lease_not_found_witness:
  "cas_put example_env False lost_lease_driver =
     (Inl (ClientError lease_not_found), snd (cas_put example_env False lost_lease_driver)) \<and>
   issubclass (err_class lease_not_found) LeaseNotFound \<and>
   truthy (self_lease lost_lease_driver) \<and>
   fst (attempt_to_acquire_leader example_env False lost_lease_driver) = Inr (PBool True) \<and>
   self_lease (snd (attempt_to_acquire_leader example_env False lost_lease_driver)) = PInt 8 \<and>
   map (\<lambda>(m, path, flds). path)
       (sim_requests (world (snd (attempt_to_acquire_leader example_env False lost_lease_driver))))
     = [''/v3beta/kv/txn'', ''/v3beta/lease/grant'', ''/v3beta/kv/txn'']"
proof -
  let ?d1 = "snd (cas_put example_env False lost_lease_driver)"
  have h1: "cas_put example_env False lost_lease_driver = (Inl (ClientError lease_not_found), ?d1)"
    by (simp add: example_run lost_lease_driver_def lease_not_found_def)
  have h2: "issubclass (err_class lease_not_found) LeaseNotFound"
    by (simp add: lease_not_found_def class_eval)
  have h3: "truthy (self_lease lost_lease_driver)"
    by (simp add: lost_lease_driver_def example_driver_def)
  note th = do_attempt_lease_not_found [OF h1 h2]
  from th h3 have a: "attempt_to_acquire_leader example_env False lost_lease_driver =
      do_attempt_to_acquire_leader example_env False lost_lease_driver"
    by blast
  from th have b: "do_attempt_to_acquire_leader example_env False lost_lease_driver =
      (case refresh_lease example_env (?d1\<lparr>self_lease := PNone\<rparr>) of
         (Inl x, d3) \<Rightarrow> (Inl x, d3)
       | (Inr granted, d3) \<Rightarrow> cas_put example_env False d3)"
    by blast
  have c: "fst (case refresh_lease example_env (?d1\<lparr>self_lease := PNone\<rparr>) of
         (Inl x, d3) \<Rightarrow> (Inl x, d3)
       | (Inr granted, d3) \<Rightarrow> cas_put example_env False d3) = Inr (PBool True)"
    by (simp add: example_run lost_lease_driver_def lease_not_found_def)
  have d: "self_lease (snd (case refresh_lease example_env (?d1\<lparr>self_lease := PNone\<rparr>) of
         (Inl x, d3) \<Rightarrow> (Inl x, d3)
       | (Inr granted, d3) \<Rightarrow> cas_put example_env False d3)) = PInt 8"
    by (simp add: example_run lost_lease_driver_def lease_not_found_def)
  have e: "map (\<lambda>(m, path, flds). path)
       (sim_requests (world (snd (case refresh_lease example_env (?d1\<lparr>self_lease := PNone\<rparr>) of
         (Inl x, d3) \<Rightarrow> (Inl x, d3)
       | (Inr granted, d3) \<Rightarrow> cas_put example_env False d3))))
     = [''/v3beta/kv/txn'', ''/v3beta/lease/grant'', ''/v3beta/kv/txn'']"
    by (simp add: example_run lost_lease_driver_def lease_not_found_def)
  from h1 h2 h3 c d e show ?thesis
    by (simp only: a b simp_thms)
qed

subsection \<open>Releasing the leader key\<close>

text \<open>
  Claim C8: \<^verbatim>\<open>delete_leader\<close> is the decorator applied to the outcome of its body. The
  body sends a request only if the cached cluster view has a leader whose name is the
  driver's own name: then, for a leader path that encodes to \<open>k\<close> and a last-observed
  revision of the leader key that is not \<^verbatim>\<open>None\<close>, the request is the transaction
  whose one comparison requires the key's MOD revision to equal that revision and whose
  success branch deletes the key, and the body returns its succeeded flag. In every
  other state (no view, no leader in the view, another name) the body returns
  \<^verbatim>\<open>None\<close> and changes nothing: no request is sent.
\<close>

theorem delete_leader_guarded:
  fixes E :: "'w env" and d :: "'w etcd3"
  shows "delete_leader E d =
           (let (r, d1) = delete_leader_body E d in catch_etcd_errors E r d1) \<and>
         (\<forall>view l k. self_cluster d = Some view \<and> cl_leader view = Some l \<and>
                     leader_name E l = self_name d \<and> lead_index l \<noteq> PNone \<and>
                     base64_encode (lib E) (self_leader_path d) = Inr k \<longrightarrow>
            delete_leader_body E d =
              on_client
                (txn E [(''target'', PStr ''MOD''), (''mod_revision'', lead_index l), (''key'', k)]
                   ''request_delete_range'' (PDict [(''key'', k)])) d) \<and>
         (\<not> (\<exists>view l. self_cluster d = Some view \<and> cl_leader view = Some l \<and>
                       leader_name E l = self_name d) \<longrightarrow>
            delete_leader_body E d = (Inr PNone, d))"
proof (intro conjI allI impI)
  show "delete_leader E d = (let (r, d1) = delete_leader_body E d in catch_etcd_errors E r d1)"
    by (simp add: delete_leader_def)
next
  fix view l k
  assume a: "self_cluster d = Some view \<and> cl_leader view = Some l \<and>
      leader_name E l = self_name d \<and> lead_index l \<noteq> PNone \<and>
      base64_encode (lib E) (self_leader_path d) = Inr k"
  then have "deleterange E (self_leader_path d) PNone (lead_index l) =
      txn E [(''target'', PStr ''MOD''), (''mod_revision'', lead_index l), (''key'', k)]
        ''request_delete_range'' (PDict [(''key'', k)])"
    by (auto simp: deleterange_def build_range_request_def py_getitem_def)
  with a show "delete_leader_body E d =
      on_client
        (txn E [(''target'', PStr ''MOD''), (''mod_revision'', lead_index l), (''key'', k)]
           ''request_delete_range'' (PDict [(''key'', k)])) d"
    by (simp add: delete_leader_body_def)
next
  assume "\<not> (\<exists>view l. self_cluster d = Some view \<and> cl_leader view = Some l \<and>
      leader_name E l = self_name d)"
  then show "delete_leader_body E d = (Inr PNone, d)"
    by (auto simp: delete_leader_body_def split: option.splits)
qed

text \<open>
  Two drivers named node1 whose view has a leader observed at revision 15: when the
  leader is node1 the one request sent is the guarded delete, when it is node2 nothing
  is sent.
\<close>

theorem delete_leader_guarded_witness:
  "delete_leader example_env (viewing_driver ''node2'') =
     (Inr (PBool False), viewing_driver ''node2'') \<and>
   fst (delete_leader example_env (viewing_driver ''node1'')) = Inr (PBool True) \<and>
   sim_requests (world (snd (delete_leader example_env (viewing_driver ''node1'')))) =
     [(''POST'', ''/v3beta/kv/txn'',
       PDict [(''compare'',
                 PList [PDict [(''target'', PStr ''MOD''), (''mod_revision'', PStr ''15''),
                               (''key'', PStr ''L3NlcnZpY2UvYmF0bWFuL2xlYWRlcg=='')]]),
              (''success'',
                 PList [PDict [(''request_delete_range'',
                          PDict [(''key'', PStr ''L3NlcnZpY2UvYmF0bWFuL2xlYWRlcg=='')])]])])]"
proof -
  let ?k = "PStr ''L3NlcnZpY2UvYmF0bWFuL2xlYWRlcg==''"
  let ?l = "\<lparr>lead_index = PStr ''15'', lead_session = PInt 7,
             lead_member = \<lparr>mem_index = PStr ''12'', mem_name = PStr ''node1'',
                             mem_session = PInt 7, mem_data = PDict []\<rparr>\<rparr>"
  note th1 = delete_leader_guarded [of example_env "viewing_driver ''node1''"]
  note th2 = delete_leader_guarded [of example_env "viewing_driver ''node2''"]
  have own: "self_cluster (viewing_driver ''node1'') = Some (view_with_leader ''node1'') \<and>
      cl_leader (view_with_leader ''node1'') = Some ?l \<and>
      leader_name example_env ?l = self_name (viewing_driver ''node1'') \<and>
      lead_index ?l \<noteq> PNone \<and>
      base64_encode (lib example_env) (self_leader_path (viewing_driver ''node1'')) = Inr ?k"
    by (simp add: viewing_driver_def view_with_leader_def example_driver_def example_env_def
          base64_encode_def to_bytes_def example_lib_def b64_char_def char_of_eq_iff)
  from th1 own have b1: "delete_leader_body example_env (viewing_driver ''node1'') =
      on_client
        (txn example_env
           [(''target'', PStr ''MOD''), (''mod_revision'', lead_index ?l), (''key'', ?k)]
           ''request_delete_range'' (PDict [(''key'', ?k)])) (viewing_driver ''node1'')"
    by blast
  have other: "\<not> (\<exists>view l. self_cluster (viewing_driver ''node2'') = Some view \<and>
      cl_leader view = Some l \<and> leader_name example_env l = self_name (viewing_driver ''node2''))"
    by (auto simp: viewing_driver_def view_with_leader_def example_driver_def example_env_def)
  with th2 have b2: "delete_leader_body example_env (viewing_driver ''node2'') =
      (Inr PNone, viewing_driver ''node2'')"
    by blast
  from th1 have d1: "delete_leader example_env (viewing_driver ''node1'') =
      (let (r, d1) = delete_leader_body example_env (viewing_driver ''node1'')
       in catch_etcd_errors example_env r d1)"
    by blast
  from th2 have d2: "delete_leader example_env (viewing_driver ''node2'') =
      (let (r, d1) = delete_leader_body example_env (viewing_driver ''node2'')
       in catch_etcd_errors example_env r d1)"
    by blast
  show ?thesis
    unfolding d1 d2 b1 b2
    by (simp add: on_client_def txn_def call_rpc_def MPOST_def example_env_def
          example_api_execute_def viewing_driver_def example_driver_def example_client_def
          py_get_def world_def)
qed

subsection \<open>The leader of a loaded cluster\<close>

lemma base64_decode_str: "base64_decode L v = Inr x \<Longrightarrow> \<exists>s. x = PStr s"
  by (auto simp: base64_decode_def split: option.splits)

lemma decode_node_decoded:
  assumes "decode_node L path node = Inr (k, n)"
  shows "decoded_node n"
proof -
  from assms obtain kvs ks vs l where n:
    "n = PDict (dict_set (dict_set (dict_set kvs ''key'' (PStr ks)) ''value'' (PStr vs)) ''lease'' l)"
    by (auto simp: decode_node_def split: sum.splits pyval.splits dest!: base64_decode_str)
  show ?thesis
    unfolding n by (simp add: decoded_node_def map_of_dict_set)
qed

lemma load_nodes_decoded:
  assumes "load_nodes L path ns acc = Inr nodes"
    and "\<And>k n. map_of acc k = Some n \<Longrightarrow> decoded_node n"
    and "map_of nodes k = Some n"
  shows "decoded_node n"
  using assms
proof (induction ns arbitrary: acc)
  case Nil
  then show ?case by simp
next
  case (Cons node ns)
  from Cons.prems(1) obtain k1 n1 where dec: "decode_node L path node = Inr (k1, n1)"
    and rest: "load_nodes L path ns (dict_set acc k1 n1) = Inr nodes"
    by (auto split: sum.splits)
  have "\<And>k n. map_of (dict_set acc k1 n1) k = Some n \<Longrightarrow> decoded_node n"
    using Cons.prems(2) decode_node_decoded [OF dec]
    by (auto simp: map_of_dict_set split: if_splits)
  from Cons.IH [OF rest this Cons.prems(3)] show ?case .
qed

text \<open>
  Claim C9: for every scan result that decodes to an index with a leader node whose
  revision the server has sent. The node's value is a string \<open>v\<close>. The leader step of the
  loader returns, for any member list, the leader record with the node's revision and
  lease whose member is the first member named \<open>v\<close> (the member, when exactly one has
  that name), or, when no member has that name, the placeholder
  \<^verbatim>\<open>Member(-1, v, None, {})\<close>; it raises in neither case. So whenever the other parts of
  the snapshot decode, the loader returns the cluster with that leader record.
\<close>

theorem load_cluster_resolves_leader:
  assumes "load_nodes (lib E) path ns [] = Inr nodes"
    and "map_of nodes (k_LEADER (key_names E)) = Some node"
    and "py_getitem node ''mod_revision'' = Inr r"
  shows "\<exists>v s. py_getitem node ''value'' = Inr (PStr v) \<and> py_getitem node ''lease'' = Inr s \<and>
           (\<forall>members.
              get_leader members nodes (k_LEADER (key_names E)) =
                Inr (Some \<lparr>lead_index = r, lead_session = s,
                           lead_member =
                             (case filter (\<lambda>m. mem_name m = PStr v) members of
                                [] \<Rightarrow> \<lparr>mem_index = PInt (- 1), mem_name = PStr v,
                                       mem_session = PNone, mem_data = PDict []\<rparr>
                              | m # _ \<Rightarrow> m)\<rparr>)) \<and>
           (\<forall>i c h opt members f y.
              py_and (nodes_get nodes (k_INITIALIZE (key_names E)))
                (py_getitem (nodes_get nodes (k_INITIALIZE (key_names E))) ''value'') = Inr i \<and>
              py_and (nodes_get nodes (k_CONFIG (key_names E)))
                (from_node (config_from_node E) (nodes_get nodes (k_CONFIG (key_names E)))) = Inr c \<and>
              py_and (nodes_get nodes (k_HISTORY (key_names E)))
                (from_node (history_from_node E) (nodes_get nodes (k_HISTORY (key_names E)))) = Inr h \<and>
              get_last_leader_operation nodes (k_LEADER_OPTIME (key_names E)) = Inr opt \<and>
              get_members E nodes = Inr members \<and>
              py_and (nodes_get nodes (k_FAILOVER (key_names E)))
                (from_node (failover_from_node E) (nodes_get nodes (k_FAILOVER (key_names E)))) = Inr f \<and>
              get_sync E (nodes_get nodes (k_SYNC (key_names E))) = Inr y \<longrightarrow>
              cluster_of_nodes E nodes =
                Inr \<lparr>cl_initialize = i, cl_config = c,
                     cl_leader =
                       Some \<lparr>lead_index = r, lead_session = s,
                             lead_member =
                               (case filter (\<lambda>m. mem_name m = PStr v) members of
                                  [] \<Rightarrow> \<lparr>mem_index = PInt (- 1), mem_name = PStr v,
                                         mem_session = PNone, mem_data = PDict []\<rparr>
                                | m # _ \<Rightarrow> m)\<rparr>,
                     cl_last_leader_operation = opt, cl_members = members, cl_failover = f,
                     cl_sync = y, cl_history = h\<rparr>)"
proof -
  have "decoded_node node"
    using load_nodes_decoded [OF assms(1) _ assms(2)] by simp
  then obtain kvs v s where node: "node = PDict kvs" and v: "map_of kvs ''value'' = Some (PStr v)"
    and s: "map_of kvs ''lease'' = Some s"
    by (auto simp: decoded_node_def split: pyval.splits option.splits)
  from node v have kvs: "kvs \<noteq> []" by auto
  from assms(3) node have r: "map_of kvs ''mod_revision'' = Some r"
    by (auto simp: py_getitem_def split: option.splits)
  have gl: "get_leader members nodes (k_LEADER (key_names E)) =
      Inr (Some \<lparr>lead_index = r, lead_session = s,
                 lead_member =
                   (case filter (\<lambda>m. mem_name m = PStr v) members of
                      [] \<Rightarrow> \<lparr>mem_index = PInt (- 1), mem_name = PStr v,
                             mem_session = PNone, mem_data = PDict []\<rparr>
                    | m # _ \<Rightarrow> m)\<rparr>)" for members
    using assms(2) node v s r kvs
    by (simp add: get_leader_def nodes_get_def py_getitem_def Let_def)
  have "py_getitem node ''value'' = Inr (PStr v)" and "py_getitem node ''lease'' = Inr s"
    using node v s by (simp_all add: py_getitem_def)
  moreover have "cluster_of_nodes E nodes =
      Inr \<lparr>cl_initialize = i, cl_config = c,
           cl_leader =
             Some \<lparr>lead_index = r, lead_session = s,
                   lead_member =
                     (case filter (\<lambda>m. mem_name m = PStr v) members of
                        [] \<Rightarrow> \<lparr>mem_index = PInt (- 1), mem_name = PStr v,
                               mem_session = PNone, mem_data = PDict []\<rparr>
                      | m # _ \<Rightarrow> m)\<rparr>,
           cl_last_leader_operation = opt, cl_members = members, cl_failover = f,
           cl_sync = y, cl_history = h\<rparr>"
    if "py_and (nodes_get nodes (k_INITIALIZE (key_names E)))
          (py_getitem (nodes_get nodes (k_INITIALIZE (key_names E))) ''value'') = Inr i"
      and "py_and (nodes_get nodes (k_CONFIG (key_names E)))
          (from_node (config_from_node E) (nodes_get nodes (k_CONFIG (key_names E)))) = Inr c"
      and "py_and (nodes_get nodes (k_HISTORY (key_names E)))
          (from_node (history_from_node E) (nodes_get nodes (k_HISTORY (key_names E)))) = Inr h"
      and "get_last_leader_operation nodes (k_LEADER_OPTIME (key_names E)) = Inr opt"
      and "get_members E nodes = Inr members"
      and "py_and (nodes_get nodes (k_FAILOVER (key_names E)))
          (from_node (failover_from_node E) (nodes_get nodes (k_FAILOVER (key_names E)))) = Inr f"
      and "get_sync E (nodes_get nodes (k_SYNC (key_names E))) = Inr y"
    for i c h opt members f y
    using that by (simp add: cluster_of_nodes_def Let_def gl)
  ultimately show ?thesis
    using gl by blast
qed

lemma example_raw_nodes:
  "raw_node ''/service/batman/leader'' ''nodeZ'' ''15'' =
     PDict [(''key'', PStr ''L3NlcnZpY2UvYmF0bWFuL2xlYWRlcg==''), (''mod_revision'', PStr ''15''),
            (''value'', PStr ''bm9kZVo=''), (''lease'', PStr ''7'')]"
  "raw_node ''/service/batman/leader'' ''nodeA'' ''15'' =
     PDict [(''key'', PStr ''L3NlcnZpY2UvYmF0bWFuL2xlYWRlcg==''), (''mod_revision'', PStr ''15''),
            (''value'', PStr ''bm9kZUE=''), (''lease'', PStr ''7'')]"
  by (simp_all add: raw_node_def base64_encode_def to_bytes_def example_lib_def b64_char_def
        char_of_eq_iff)

lemma example_decode_node:
  "decode_node example_lib ''/service/batman/'' (raw_node ''/service/batman/leader'' ''nodeZ'' ''15'')
     = Inr (''leader'', decoded ''/service/batman/leader'' ''nodeZ'' ''15'')"
  "decode_node example_lib ''/service/batman/'' (raw_node ''/service/batman/leader'' ''nodeA'' ''15'')
     = Inr (''leader'', decoded ''/service/batman/leader'' ''nodeA'' ''15'')"
  "decode_node example_lib ''/service/batman/'' (raw_node ''/service/batman/members/nodeA'' ''a'' ''12'')
     = Inr (''members/nodeA'', decoded ''/service/batman/members/nodeA'' ''a'' ''12'')"
  "decode_node example_lib ''/service/batman/'' (raw_node ''/service/batman/members/nodeB'' ''b'' ''13'')
     = Inr (''members/nodeB'', decoded ''/service/batman/members/nodeB'' ''b'' ''13'')"
  by (simp_all add: decode_node_def raw_node_def decoded_def base64_encode_def base64_decode_def
        to_bytes_def example_lib_def b64_char_def b64_index_def char_of_eq_iff py_getitem_def
        py_get_def lstrip_char_def)

lemma example_lib_env: "lib example_env = example_lib"
  by (simp add: example_env_def)

lemma example_key_names:
  "k_INITIALIZE (key_names example_env) = ''initialize''"
  "k_CONFIG (key_names example_env) = ''config''"
  "k_HISTORY (key_names example_env) = ''history''"
  "k_LEADER_OPTIME (key_names example_env) = ''optime/leader''"
  "k_MEMBERS (key_names example_env) = ''members/''"
  "k_LEADER (key_names example_env) = ''leader''"
  "k_FAILOVER (key_names example_env) = ''failover''"
  "k_SYNC (key_names example_env) = ''sync''"
  by (simp_all add: example_env_def example_keys_def)

lemma example_other_parts:
  fixes nodes :: "(string \<times> pyval) list"
  assumes "map_of nodes ''initialize'' = None" and "map_of nodes ''config'' = None"
    and "map_of nodes ''history'' = None" and "map_of nodes ''optime/leader'' = None"
    and "map_of nodes ''failover'' = None" and "map_of nodes ''sync'' = None"
  shows "py_and (nodes_get nodes (k_INITIALIZE (key_names example_env)))
           (py_getitem (nodes_get nodes (k_INITIALIZE (key_names example_env))) ''value'') = Inr PNone"
    and "py_and (nodes_get nodes (k_CONFIG (key_names example_env)))
           (from_node (config_from_node example_env)
              (nodes_get nodes (k_CONFIG (key_names example_env)))) = Inr PNone"
    and "py_and (nodes_get nodes (k_HISTORY (key_names example_env)))
           (from_node (history_from_node example_env)
              (nodes_get nodes (k_HISTORY (key_names example_env)))) = Inr PNone"
    and "get_last_leader_operation nodes (k_LEADER_OPTIME (key_names example_env)) = Inr 0"
    and "py_and (nodes_get nodes (k_FAILOVER (key_names example_env)))
           (from_node (failover_from_node example_env)
              (nodes_get nodes (k_FAILOVER (key_names example_env)))) = Inr PNone"
    and "get_sync example_env (nodes_get nodes (k_SYNC (key_names example_env))) = Inr absent"
  using assms
  by (simp_all add: example_key_names example_keys_def nodes_get_def py_and_def
        get_last_leader_operation_def get_sync_def absent_def example_env_def
        example_from_node_def)

text \<open>
  A run of \<^verbatim>\<open>_load_cluster\<close> on the example driver: one range request for the
  namespace, from \<^verbatim>\<open>/service/batman/\<close> to \<^verbatim>\<open>/service/batman0\<close>, answered with a scan.
\<close>

lemma example_range_end:
  "increment_last_byte example_lib (PStr ''/service/batman/'') =
     Inr (PBytes [47, 115, 101, 114, 118, 105, 99, 101, 47, 98, 97, 116, 109, 97, 110, 48])"
  by (simp add: increment_last_byte_def to_bytes_def example_lib_def Let_def)

lemma example_range_request:
  "build_range_request example_lib (PStr ''/service/batman/'')
       (PBytes [47, 115, 101, 114, 118, 105, 99, 101, 47, 98, 97, 116, 109, 97, 110, 48]) =
     Inr (PDict [(''key'', PStr ''L3NlcnZpY2UvYmF0bWFuLw==''),
                 (''range_end'', PStr ''L3NlcnZpY2UvYmF0bWFuMA=='')])"
  by (simp add: build_range_request_def base64_encode_def to_bytes_def example_lib_def
        b64_char_def char_of_eq_iff Let_def)

lemma example_prefix_request:
  "prefix example_env (PStr ''/service/batman/'') c =
     example_api_execute (version_prefix c @ ''/kv/range'') MPOST
       (PDict [(''key'', PStr ''L3NlcnZpY2UvYmF0bWFuLw==''),
               (''range_end'', PStr ''L3NlcnZpY2UvYmF0bWFuMA=='')]) c"
  by (simp add: prefix_def range_kv_def example_lib_env example_range_end example_range_request
        call_rpc_def) (simp add: example_env_def)

lemma example_load_cluster:
  assumes "load_nodes (lib example_env) ''/service/batman/'' ns [] = Inr nodes"
    and "cluster_of_nodes example_env nodes = Inr C"
  shows "fst (load_cluster example_env (example_driver (PInt 7) [Inr (scan_of ns)])) =
           Inr (Some C)"
    and "sim_requests (transport (self_client (snd (load_cluster example_env
            (example_driver (PInt 7) [Inr (scan_of ns)]))))) =
         [(''POST'', ''/v3beta/kv/range'',
           PDict [(''key'', PStr ''L3NlcnZpY2UvYmF0bWFuLw==''),
                  (''range_end'', PStr ''L3NlcnZpY2UvYmF0bWFuMA=='')])]"
proof -
  have path: "client_path example_env [] = ''/service/batman/''"
    by (simp add: example_env_def lstrip_char_def)
  have budget: "retry_budget example_env w = 2" for w
    by (simp add: example_env_def)
  have r: "retry example_env (on_client (prefix example_env (PStr ''/service/batman/'')))
        (example_driver (PInt 7) [Inr (scan_of ns)]) =
      (Inr (scan_of ns),
       (example_driver (PInt 7) [])\<lparr>self_client :=
          (example_client [])\<lparr>transport :=
             \<lparr>sim_requests = [(''POST'', ''/v3beta/kv/range'',
                  PDict [(''key'', PStr ''L3NlcnZpY2UvYmF0bWFuLw==''),
                         (''range_end'', PStr ''L3NlcnZpY2UvYmF0bWFuMA=='')])],
              sim_responses = [], sim_version = \<lparr>resp_status = 200, resp_data = []\<rparr>,
              sim_clock = 101\<rparr>\<rparr>\<rparr>)"
    by (simp add: retry_def budget on_client_def example_prefix_request
        example_api_execute_def example_driver_def example_client_def world_def MPOST_def
        numeral_2_eq_2)
  have c: "cluster_of_result example_env ''/service/batman/'' (scan_of ns) = Inr C"
    using assms
    by (simp add: cluster_of_result_def py_get_def py_iter_def scan_of_def)
  show "fst (load_cluster example_env (example_driver (PInt 7) [Inr (scan_of ns)])) =
          Inr (Some C)"
    by (simp add: load_cluster_def path r c)
  show "sim_requests (transport (self_client (snd (load_cluster example_env
            (example_driver (PInt 7) [Inr (scan_of ns)]))))) =
         [(''POST'', ''/v3beta/kv/range'',
           PDict [(''key'', PStr ''L3NlcnZpY2UvYmF0bWFuLw==''),
                  (''range_end'', PStr ''L3NlcnZpY2UvYmF0bWFuMA=='')])]"
    by (simp add: load_cluster_def path r c)
qed

text \<open>
  The two scans: the leader key names nodeZ and there is no member key, so the leader's
  member is the placeholder, and \<^verbatim>\<open>_load_cluster\<close> returns the cluster; the leader key
  names nodeA and there are member keys of nodeA and nodeB, so the leader's member is
  the member of nodeA.
\<close>

theorem load_cluster_resolves_leader_witness:
  "load_nodes (lib example_env) ''/service/batman/''
       [raw_node ''/service/batman/leader'' ''nodeZ'' ''15''] [] =
     Inr [(''leader'', decoded ''/service/batman/leader'' ''nodeZ'' ''15'')] \<and>
   cluster_of_nodes example_env [(''leader'', decoded ''/service/batman/leader'' ''nodeZ'' ''15'')] =
     Inr \<lparr>cl_initialize = PNone, cl_config = PNone,
          cl_leader = Some \<lparr>lead_index = PStr ''15'', lead_session = PStr ''7'',
                            lead_member = placeholder ''nodeZ''\<rparr>,
          cl_last_leader_operation = 0, cl_members = [], cl_failover = PNone,
          cl_sync = absent, cl_history = PNone\<rparr> \<and>
   fst (load_cluster example_env
          (example_driver (PInt 7)
             [Inr (scan_of [raw_node ''/service/batman/leader'' ''nodeZ'' ''15''])])) =
     Inr (Some \<lparr>cl_initialize = PNone, cl_config = PNone,
                cl_leader = Some \<lparr>lead_index = PStr ''15'', lead_session = PStr ''7'',
                                  lead_member = placeholder ''nodeZ''\<rparr>,
                cl_last_leader_operation = 0, cl_members = [], cl_failover = PNone,
                cl_sync = absent, cl_history = PNone\<rparr>) \<and>
   load_nodes (lib example_env) ''/service/batman/''
       [raw_node ''/service/batman/leader'' ''nodeA'' ''15'',
        raw_node ''/service/batman/members/nodeA'' ''a'' ''12'',
        raw_node ''/service/batman/members/nodeB'' ''b'' ''13''] [] =
     Inr [(''leader'', decoded ''/service/batman/leader'' ''nodeA'' ''15''),
          (''members/nodeA'', decoded ''/service/batman/members/nodeA'' ''a'' ''12''),
          (''members/nodeB'', decoded ''/service/batman/members/nodeB'' ''b'' ''13'')] \<and>
   cluster_of_nodes example_env
       [(''leader'', decoded ''/service/batman/leader'' ''nodeA'' ''15''),
        (''members/nodeA'', decoded ''/service/batman/members/nodeA'' ''a'' ''12''),
        (''members/nodeB'', decoded ''/service/batman/members/nodeB'' ''b'' ''13'')] =
     Inr \<lparr>cl_initialize = PNone, cl_config = PNone,
          cl_leader =
            Some \<lparr>lead_index = PStr ''15'', lead_session = PStr ''7'',
                  lead_member = \<lparr>mem_index = PStr ''12'', mem_name = PStr ''nodeA'',
                                  mem_session = PStr ''7'', mem_data = PStr ''a''\<rparr>\<rparr>,
          cl_last_leader_operation = 0,
          cl_members =
            [\<lparr>mem_index = PStr ''12'', mem_name = PStr ''nodeA'', mem_session = PStr ''7'',
              mem_data = PStr ''a''\<rparr>,
             \<lparr>mem_index = PStr ''13'', mem_name = PStr ''nodeB'', mem_session = PStr ''7'',
              mem_data = PStr ''b''\<rparr>],
          cl_failover = PNone, cl_sync = absent, cl_history = PNone\<rparr>"
proof -
  let ?path = "''/service/batman/''"
  let ?z = "decoded ''/service/batman/leader'' ''nodeZ'' ''15''"
  let ?a = "decoded ''/service/batman/leader'' ''nodeA'' ''15''"
  let ?nz = "[(''leader'', ?z)]"
  let ?na = "[(''leader'', ?a),
              (''members/nodeA'', decoded ''/service/batman/members/nodeA'' ''a'' ''12''),
              (''members/nodeB'', decoded ''/service/batman/members/nodeB'' ''b'' ''13'')]"
  let ?ma = "\<lparr>mem_index = PStr ''12'', mem_name = PStr ''nodeA'', mem_session = PStr ''7'',
               mem_data = PStr ''a''\<rparr>"
  let ?mb = "\<lparr>mem_index = PStr ''13'', mem_name = PStr ''nodeB'', mem_session = PStr ''7'',
               mem_data = PStr ''b''\<rparr>"
  have lz: "load_nodes (lib example_env) ?path
      [raw_node ''/service/batman/leader'' ''nodeZ'' ''15''] [] = Inr ?nz"
    by (simp add: example_lib_env example_decode_node)
  have la: "load_nodes (lib example_env) ?path
      [raw_node ''/service/batman/leader'' ''nodeA'' ''15'',
       raw_node ''/service/batman/members/nodeA'' ''a'' ''12'',
       raw_node ''/service/batman/members/nodeB'' ''b'' ''13''] [] = Inr ?na"
    by (simp add: example_lib_env example_decode_node)
  have kz: "map_of ?nz (k_LEADER (key_names example_env)) = Some ?z"
    and ka: "map_of ?na (k_LEADER (key_names example_env)) = Some ?a"
    by (simp_all add: example_key_names)
  have rz: "py_getitem ?z ''mod_revision'' = Inr (PStr ''15'')"
    and ra: "py_getitem ?a ''mod_revision'' = Inr (PStr ''15'')"
    by (simp_all add: decoded_def py_getitem_def)
  have mz: "get_members example_env ?nz = Inr []"
    by (simp add: example_key_names startswith_def)
  have ma: "get_members example_env ?na = Inr [?ma, ?mb]"
    by (simp add: example_key_names example_keys_def startswith_def member_of_node_def
          decoded_def py_getitem_def basename_def example_env_def)
  from load_cluster_resolves_leader [OF lz kz rz]
  obtain v s where vz: "py_getitem ?z ''value'' = Inr (PStr v)"
    and sz: "py_getitem ?z ''lease'' = Inr s"
    and cz: "\<And>i c h opt members f y.
      py_and (nodes_get ?nz (k_INITIALIZE (key_names example_env)))
        (py_getitem (nodes_get ?nz (k_INITIALIZE (key_names example_env))) ''value'') = Inr i \<Longrightarrow>
      py_and (nodes_get ?nz (k_CONFIG (key_names example_env)))
        (from_node (config_from_node example_env)
           (nodes_get ?nz (k_CONFIG (key_names example_env)))) = Inr c \<Longrightarrow>
      py_and (nodes_get ?nz (k_HISTORY (key_names example_env)))
        (from_node (history_from_node example_env)
           (nodes_get ?nz (k_HISTORY (key_names example_env)))) = Inr h \<Longrightarrow>
      get_last_leader_operation ?nz (k_LEADER_OPTIME (key_names example_env)) = Inr opt \<Longrightarrow>
      get_members example_env ?nz = Inr members \<Longrightarrow>
      py_and (nodes_get ?nz (k_FAILOVER (key_names example_env)))
        (from_node (failover_from_node example_env)
           (nodes_get ?nz (k_FAILOVER (key_names example_env)))) = Inr f \<Longrightarrow>
      get_sync example_env (nodes_get ?nz (k_SYNC (key_names example_env))) = Inr y \<Longrightarrow>
      cluster_of_nodes example_env ?nz =
        Inr \<lparr>cl_initialize = i, cl_config = c,
             cl_leader =
               Some \<lparr>lead_index = PStr ''15'', lead_session = s,
                     lead_member =
                       (case filter (\<lambda>m. mem_name m = PStr v) members of
                          [] \<Rightarrow> \<lparr>mem_index = PInt (- 1), mem_name = PStr v,
                                 mem_session = PNone, mem_data = PDict []\<rparr>
                        | m # _ \<Rightarrow> m)\<rparr>,
             cl_last_leader_operation = opt, cl_members = members, cl_failover = f,
             cl_sync = y, cl_history = h\<rparr>"
    by blast
  from vz sz have "v = ''nodeZ''" and "s = PStr ''7''"
    by (simp_all add: decoded_def py_getitem_def)
  with cz [OF example_other_parts(1-4) mz example_other_parts(5-6)]
  have z: "cluster_of_nodes example_env ?nz =
     Inr \<lparr>cl_initialize = PNone, cl_config = PNone,
          cl_leader = Some \<lparr>lead_index = PStr ''15'', lead_session = PStr ''7'',
                            lead_member = placeholder ''nodeZ''\<rparr>,
          cl_last_leader_operation = 0, cl_members = [], cl_failover = PNone,
          cl_sync = absent, cl_history = PNone\<rparr>"
    by (simp add: placeholder_def)
  from load_cluster_resolves_leader [OF la ka ra]
  obtain v s where va: "py_getitem ?a ''value'' = Inr (PStr v)"
    and sa: "py_getitem ?a ''lease'' = Inr s"
    and ca: "\<And>i c h opt members f y.
      py_and (nodes_get ?na (k_INITIALIZE (key_names example_env)))
        (py_getitem (nodes_get ?na (k_INITIALIZE (key_names example_env))) ''value'') = Inr i \<Longrightarrow>
      py_and (nodes_get ?na (k_CONFIG (key_names example_env)))
        (from_node (config_from_node example_env)
           (nodes_get ?na (k_CONFIG (key_names example_env)))) = Inr c \<Longrightarrow>
      py_and (nodes_get ?na (k_HISTORY (key_names example_env)))
        (from_node (history_from_node example_env)
           (nodes_get ?na (k_HISTORY (key_names example_env)))) = Inr h \<Longrightarrow>
      get_last_leader_operation ?na (k_LEADER_OPTIME (key_names example_env)) = Inr opt \<Longrightarrow>
      get_members example_env ?na = Inr members \<Longrightarrow>
      py_and (nodes_get ?na (k_FAILOVER (key_names example_env)))
        (from_node (failover_from_node example_env)
           (nodes_get ?na (k_FAILOVER (key_names example_env)))) = Inr f \<Longrightarrow>
      get_sync example_env (nodes_get ?na (k_SYNC (key_names example_env))) = Inr y \<Longrightarrow>
      cluster_of_nodes example_env ?na =
        Inr \<lparr>cl_initialize = i, cl_config = c,
             cl_leader =
               Some \<lparr>lead_index = PStr ''15'', lead_session = s,
                     lead_member =
                       (case filter (\<lambda>m. mem_name m = PStr v) members of
                          [] \<Rightarrow> \<lparr>mem_index = PInt (- 1), mem_name = PStr v,
                                 mem_session = PNone, mem_data = PDict []\<rparr>
                        | m # _ \<Rightarrow> m)\<rparr>,
             cl_last_leader_operation = opt, cl_members = members, cl_failover = f,
             cl_sync = y, cl_history = h\<rparr>"
    by blast
  from va sa have "v = ''nodeA''" and "s = PStr ''7''"
    by (simp_all add: decoded_def py_getitem_def)
  with ca [OF example_other_parts(1-4) ma example_other_parts(5-6)]
  have a: "cluster_of_nodes example_env ?na =
     Inr \<lparr>cl_initialize = PNone, cl_config = PNone,
          cl_leader = Some \<lparr>lead_index = PStr ''15'', lead_session = PStr ''7'',
                            lead_member = ?ma\<rparr>,
          cl_last_leader_operation = 0, cl_members = [?ma, ?mb], cl_failover = PNone,
          cl_sync = absent, cl_history = PNone\<rparr>"
    by simp
  note run = example_load_cluster(1) [OF lz z]
  from lz z run la a show ?thesis by (intro conjI)
qed

end
